theory Spec2Isabelle
  imports Complex_Main "HOL-Library.Word"
begin

section \<open>Session entrypoints of the OpenXR state tracker (oxr_api_session.c)\<close>

text \<open>
  The entrypoints of \<^verbatim>\<open>src/xrt/state_trackers/oxr/oxr_api_session.c\<close> as functions on
  an explicit runtime state. A handle (\<^verbatim>\<open>XrSession\<close>, \<^verbatim>\<open>XrHandTrackerEXT\<close>, ...) is the
  address of the object it names; address 0 is \<^verbatim>\<open>NULL\<close> / \<^verbatim>\<open>XR_NULL_HANDLE\<close>. A pointer to
  a structure of the caller is the structure itself in an \<open>option\<close> (\<open>None\<close> is the
  \<^verbatim>\<open>NULL\<close> pointer); an output structure is passed in and returned as the call left it.
  Functions, macros and constants that the file uses and that live in other files of
  the repository are parameters of the entrypoint that uses them, named as in the
  source, or are modelled from the specification where a comment says so.
\<close>

subsection \<open>Result codes and enumerations\<close>

type_synonym addr = nat

datatype XrResult =
    XR_SUCCESS
  | XR_ERROR_VALIDATION_FAILURE
  | XR_ERROR_RUNTIME_FAILURE
  | XR_ERROR_OUT_OF_MEMORY
  | XR_ERROR_FUNCTION_UNSUPPORTED
  | XR_ERROR_FEATURE_UNSUPPORTED
  | XR_ERROR_LIMIT_REACHED
  | XR_ERROR_SIZE_INSUFFICIENT
  | XR_ERROR_HANDLE_INVALID
  | XR_ERROR_SESSION_RUNNING
  | XR_ERROR_SESSION_NOT_RUNNING
  | XR_ERROR_SESSION_LOST
  | XR_ERROR_TIME_INVALID
  | XR_ERROR_VIEW_CONFIGURATION_TYPE_UNSUPPORTED
  | XR_ERROR_DISPLAY_REFRESH_RATE_UNSUPPORTED_FB
  | XR_RESULT_OTHER int

text \<open>The structure tags (\<^verbatim>\<open>XrStructureType\<close>) the file compares against.\<close>

datatype XrStructureType =
    XR_TYPE_UNKNOWN
  | XR_TYPE_SESSION_BEGIN_INFO
  | XR_TYPE_FRAME_WAIT_INFO
  | XR_TYPE_FRAME_STATE
  | XR_TYPE_FRAME_BEGIN_INFO
  | XR_TYPE_FRAME_END_INFO
  | XR_TYPE_VIEW_LOCATE_INFO
  | XR_TYPE_VIEW_STATE
  | XR_TYPE_VIEW
  | XR_TYPE_VISIBILITY_MASK_KHR
  | XR_TYPE_HAND_TRACKER_CREATE_INFO_EXT
  | XR_TYPE_HAND_JOINTS_LOCATE_INFO_EXT
  | XR_TYPE_HAND_JOINT_LOCATIONS_EXT
  | XR_TYPE_HAND_JOINT_VELOCITIES_EXT
  | XR_TYPE_FORCE_FEEDBACK_CURL_APPLY_LOCATIONS_MNDX
  | XR_TYPE_FACIAL_TRACKER_CREATE_INFO_HTC
  | XR_TYPE_FACIAL_EXPRESSIONS_HTC
  | XR_TYPE_BODY_TRACKER_CREATE_INFO_FB
  | XR_TYPE_BODY_SKELETON_FB
  | XR_TYPE_BODY_JOINTS_LOCATE_INFO_FB
  | XR_TYPE_BODY_JOINT_LOCATIONS_FB
  | XR_TYPE_BODY_TRACKING_FIDELITY_STATUS_META
  | XrStructureType_other int

text \<open>
  C enumerations hold any integer; every enumeration, \<open>XrStructureType\<close> included, has
  one more constructor for a value that is none of its enumerants.
\<close>

datatype XrViewConfigurationType =
    XR_VIEW_CONFIGURATION_TYPE_PRIMARY_MONO
  | XR_VIEW_CONFIGURATION_TYPE_PRIMARY_STEREO
  | XrViewConfigurationType_other int

datatype XrVisibilityMaskTypeKHR =
    XR_VISIBILITY_MASK_TYPE_HIDDEN_TRIANGLE_MESH_KHR
  | XR_VISIBILITY_MASK_TYPE_VISIBLE_TRIANGLE_MESH_KHR
  | XR_VISIBILITY_MASK_TYPE_LINE_LOOP_KHR
  | XrVisibilityMaskTypeKHR_other int

datatype XrPerfSettingsDomainEXT =
    XR_PERF_SETTINGS_DOMAIN_CPU_EXT
  | XR_PERF_SETTINGS_DOMAIN_GPU_EXT
  | XrPerfSettingsDomainEXT_other int

datatype XrPerfSettingsLevelEXT =
    XR_PERF_SETTINGS_LEVEL_POWER_SAVINGS_EXT
  | XR_PERF_SETTINGS_LEVEL_SUSTAINED_LOW_EXT
  | XR_PERF_SETTINGS_LEVEL_SUSTAINED_HIGH_EXT
  | XR_PERF_SETTINGS_LEVEL_BOOST_EXT
  | XrPerfSettingsLevelEXT_other int

datatype XrAndroidThreadTypeKHR =
    XR_ANDROID_THREAD_TYPE_APPLICATION_MAIN_KHR
  | XR_ANDROID_THREAD_TYPE_APPLICATION_WORKER_KHR
  | XR_ANDROID_THREAD_TYPE_RENDERER_MAIN_KHR
  | XR_ANDROID_THREAD_TYPE_RENDERER_WORKER_KHR
  | XrAndroidThreadTypeKHR_other int

datatype XrHandEXT =
    XR_HAND_LEFT_EXT
  | XR_HAND_RIGHT_EXT
  | XrHandEXT_other int

datatype XrHandJointSetEXT =
    XR_HAND_JOINT_SET_DEFAULT_EXT
  | XrHandJointSetEXT_other int

text \<open>
  \<^verbatim>\<open>oxr_to_xrt_facial_tracking_type_htc\<close> is a cast between two enumerations with the
  same values, so one type stands for \<^verbatim>\<open>XrFacialTrackingTypeHTC\<close> and
  \<^verbatim>\<open>enum xrt_facial_tracking_type_htc\<close>.
\<close>

datatype xrt_facial_tracking_type_htc =
    XRT_FACIAL_TRACKING_TYPE_EYE_DEFAULT_HTC
  | XRT_FACIAL_TRACKING_TYPE_LIP_DEFAULT_HTC
  | xrt_facial_tracking_type_htc_other int

datatype XrBodyJointSetFB =
    XR_BODY_JOINT_SET_DEFAULT_FB
  | XR_BODY_JOINT_SET_FULL_BODY_META
  | XrBodyJointSetFB_other int

datatype xrt_body_joint_set_type_fb =
    XRT_BODY_JOINT_SET_UNKNOWN
  | XRT_BODY_JOINT_SET_DEFAULT_FB
  | XRT_BODY_JOINT_SET_FULL_BODY_META

datatype xrt_input_name =
    XRT_INPUT_GENERIC_HAND_TRACKING_LEFT
  | XRT_INPUT_GENERIC_HAND_TRACKING_RIGHT
  | XRT_INPUT_HTC_EYE_FACE_TRACKING
  | XRT_INPUT_HTC_LIP_FACE_TRACKING
  | XRT_INPUT_FB_BODY_TRACKING
  | XRT_INPUT_META_FULL_BODY_TRACKING
  | xrt_input_name_other int

subsection \<open>C float arithmetic of the refresh-rate check\<close>

text \<open>
  A finite \<^verbatim>\<open>float\<close> is the rational it denotes (NaN and the infinities are not
  values of the model). \<open>f32_round\<close> rounds a rational to the nearest binary32 value,
  ties to even: 24 significant bits, the exponent of the smallest normal number as the
  floor for subnormals and the exponent of the largest as the ceiling. It leaves a
  result beyond the largest binary32 value finite, which the check below cannot see:
  the conversion to \<^verbatim>\<open>int\<close> is undefined from \<open>2 ^ 31\<close> on already.
\<close>

type_synonym c_float = rat

definition pow2 :: "int \<Rightarrow> rat" where
  "pow2 k = (if 0 \<le> k then 2 ^ nat k else 1 / 2 ^ nat (- k))"

definition round_half_even :: "rat \<Rightarrow> int" where
  "round_half_even q =
     (let f = \<lfloor>q\<rfloor>; r = q - of_int f
      in if r < 1 / 2 then f
         else if 1 / 2 < r then f + 1
         else if even f then f else f + 1)"

text \<open>
  The binary exponent of a positive value: the largest \<open>k\<close> from 127 down with
  \<open>2 ^ k \<le> x\<close>, and \<open>- 126\<close> when the search has passed \<open>- 125\<close>.
\<close>

primrec f32_exponent_search :: "nat \<Rightarrow> int \<Rightarrow> rat \<Rightarrow> int" where
  "f32_exponent_search 0 k x = k"
| "f32_exponent_search (Suc n) k x =
     (if pow2 k \<le> x then k else f32_exponent_search n (k - 1) x)"

definition f32_exponent :: "rat \<Rightarrow> int" where
  "f32_exponent x = f32_exponent_search 253 127 \<bar>x\<bar>"

definition f32_round :: "rat \<Rightarrow> c_float" where
  "f32_round x =
     (if x = 0 then 0
      else let ulp = pow2 (f32_exponent x - 23)
           in sgn x * of_int (round_half_even (\<bar>x\<bar> / ulp)) * ulp)"

definition c_float_mul :: "c_float \<Rightarrow> c_float \<Rightarrow> c_float" where
  "c_float_mul x y = f32_round (x * y)"

text \<open>
  The cast \<^verbatim>\<open>(int)f\<close> truncates towards zero; it is undefined (\<open>None\<close>) when the
  truncated value is not an \<^verbatim>\<open>int\<close>.
\<close>

definition c_float_to_int :: "c_float \<Rightarrow> int option" where
  "c_float_to_int x =
     (let t = (if 0 \<le> x then \<lfloor>x\<rfloor> else - \<lfloor>- x\<rfloor>)
      in if - (2 ^ 31) \<le> t \<and> t < 2 ^ 31 then Some t else None)"

subsection \<open>Devices, system and instance\<close>

record xrt_device =
  hand_tracking_supported :: bool
  face_tracking_supported :: bool
  body_tracking_supported :: bool
  body_tracking_fidelity_supported :: bool
  inputs :: "xrt_input_name list"

text \<open>
  \<^verbatim>\<open>xsysc->info\<close>: the count is a \<^verbatim>\<open>uint32_t\<close>, the rates an array of \<^verbatim>\<open>float\<close>.
\<close>

record xrt_system_compositor =
  refresh_rate_count :: "32 word"
  refresh_rates_hz :: "c_float list"

text \<open>
  The role table read by \<^verbatim>\<open>GET_XDEV_BY_ROLE(sys, role)\<close> is four fields of the
  system: the device bound to the role, or \<open>None\<close> for \<^verbatim>\<open>NULL\<close>. \<open>xsysc\<close> is \<open>None\<close>
  on a headless system.
\<close>

record oxr_system =
  view_config_type :: XrViewConfigurationType
  xsysc :: "xrt_system_compositor option"
  hand_tracking_left :: "xrt_device option"
  hand_tracking_right :: "xrt_device option"
  face :: "xrt_device option"
  body :: "xrt_device option"

record oxr_extensions =
  KHR_visibility_mask :: bool
  EXT_performance_settings :: bool
  EXT_hand_tracking :: bool
  KHR_android_thread_settings :: bool
  HTC_facial_tracking :: bool
  FB_body_tracking :: bool
  META_body_tracking_full_body :: bool
  META_body_tracking_fidelity :: bool

datatype oxr_handle_state =
    OXR_HANDLE_STATE_UNINITIALIZED
  | OXR_HANDLE_STATE_LIVE
  | OXR_HANDLE_STATE_DESTROYED

text \<open>
  The instance owns its one system (\<^verbatim>\<open>inst->system\<close>, and \<^verbatim>\<open>sess->sys->inst\<close> leads
  back to it) and the list of sessions, linked through \<^verbatim>\<open>sess->next\<close> in the source.
\<close>

record oxr_instance =
  inst_handle_state :: oxr_handle_state
  extensions :: oxr_extensions
  system :: oxr_system
  sessions :: "addr list"

subsection \<open>Handle objects and the runtime state\<close>

record oxr_session =
  sess_handle_state :: oxr_handle_state
  has_begun :: bool
  has_lost :: bool

record oxr_hand_tracker =
  ht_handle_state :: oxr_handle_state
  ht_sess :: addr
  hand :: XrHandEXT
  hand_joint_set :: XrHandJointSetEXT
  ht_xdev :: "xrt_device option"
  input_name :: "xrt_input_name option"

record oxr_facial_tracker_htc =
  ft_handle_state :: oxr_handle_state
  ft_sess :: addr
  ft_xdev :: "xrt_device option"
  facial_tracking_type :: xrt_facial_tracking_type_htc

record oxr_body_tracker_fb =
  bt_handle_state :: oxr_handle_state
  bt_sess :: addr
  bt_xdev :: "xrt_device option"
  joint_set_type :: xrt_body_joint_set_type_fb

text \<open>
  What lives at an address: the constructor is the \<^verbatim>\<open>debug\<close> tag of the handle base
  (\<^verbatim>\<open>OXR_XR_DEBUG_SESSION\<close>, \<^verbatim>\<open>OXR_XR_DEBUG_HTRACKER\<close>, ...).
\<close>

datatype oxr_object =
    Session oxr_session
  | HandTracker oxr_hand_tracker
  | FaceTracker oxr_facial_tracker_htc
  | BodyTracker oxr_body_tracker_fb
  | Space oxr_handle_state

text \<open>
  The runtime state: the objects by address, the instance and its address, and the
  addresses the allocator can still hand out.
\<close>

record world =
  objs :: "addr \<Rightarrow> oxr_object option"
  inst :: oxr_instance
  inst_at :: addr
  avail :: "addr list"

text \<open>
  What a call does: it returns a result code and leaves a runtime state and the
  caller's output (\<open>'a\<close>), or its behaviour is undefined in C (a \<^verbatim>\<open>NULL\<close> or dangling
  pointer is dereferenced, an array is indexed outside its bounds, a float that is not
  an \<^verbatim>\<open>int\<close> is cast to one).
\<close>

datatype 'a outcome = Returns XrResult world 'a | Undefined_Behaviour

subsection \<open>The verification macros of oxr_api_verify.h\<close>


definition OXR_VERIFY_SESSION :: "world \<Rightarrow> addr \<Rightarrow> XrResult + oxr_session" where
  "OXR_VERIFY_SESSION w h =
     (if h = 0 then Inl XR_ERROR_HANDLE_INVALID
      else case objs w h of
        Some (Session s) \<Rightarrow>
          if sess_handle_state s = OXR_HANDLE_STATE_LIVE then Inr s
          else Inl XR_ERROR_HANDLE_INVALID
      | _ \<Rightarrow> Inl XR_ERROR_HANDLE_INVALID)"

definition OXR_VERIFY_HAND_TRACKER :: "world \<Rightarrow> addr \<Rightarrow> XrResult + oxr_hand_tracker" where
  "OXR_VERIFY_HAND_TRACKER w h =
     (if h = 0 then Inl XR_ERROR_HANDLE_INVALID
      else case objs w h of
        Some (HandTracker t) \<Rightarrow>
          if ht_handle_state t = OXR_HANDLE_STATE_LIVE then Inr t
          else Inl XR_ERROR_HANDLE_INVALID
      | _ \<Rightarrow> Inl XR_ERROR_HANDLE_INVALID)"

definition OXR_VERIFY_FACE_TRACKER_HTC ::
  "world \<Rightarrow> addr \<Rightarrow> XrResult + oxr_facial_tracker_htc" where
  "OXR_VERIFY_FACE_TRACKER_HTC w h =
     (if h = 0 then Inl XR_ERROR_HANDLE_INVALID
      else case objs w h of
        Some (FaceTracker t) \<Rightarrow>
          if ft_handle_state t = OXR_HANDLE_STATE_LIVE then Inr t
          else Inl XR_ERROR_HANDLE_INVALID
      | _ \<Rightarrow> Inl XR_ERROR_HANDLE_INVALID)"

definition OXR_VERIFY_BODY_TRACKER_FB ::
  "world \<Rightarrow> addr \<Rightarrow> XrResult + oxr_body_tracker_fb" where
  "OXR_VERIFY_BODY_TRACKER_FB w h =
     (if h = 0 then Inl XR_ERROR_HANDLE_INVALID
      else case objs w h of
        Some (BodyTracker t) \<Rightarrow>
          if bt_handle_state t = OXR_HANDLE_STATE_LIVE then Inr t
          else Inl XR_ERROR_HANDLE_INVALID
      | _ \<Rightarrow> Inl XR_ERROR_HANDLE_INVALID)"

text \<open>\<^verbatim>\<open>OXR_VERIFY_SPACE_NOT_NULL\<close>: the handle check for a base space.\<close>

definition OXR_VERIFY_SPACE_NOT_NULL :: "world \<Rightarrow> addr \<Rightarrow> XrResult + addr" where
  "OXR_VERIFY_SPACE_NOT_NULL w h =
     (if h = 0 then Inl XR_ERROR_HANDLE_INVALID
      else case objs w h of
        Some (Space st) \<Rightarrow>
          if st = OXR_HANDLE_STATE_LIVE then Inr h else Inl XR_ERROR_HANDLE_INVALID
      | _ \<Rightarrow> Inl XR_ERROR_HANDLE_INVALID)"

text \<open>
  A tracker holds the pointer \<^verbatim>\<open>sess\<close> to its session; the source dereferences it
  without a check, so a pointer that does not lead to a session is undefined
  behaviour (\<open>None\<close>).
\<close>

definition deref_session :: "world \<Rightarrow> addr \<Rightarrow> oxr_session option" where
  "deref_session w p = (case objs w p of Some (Session s) \<Rightarrow> Some s | _ \<Rightarrow> None)"

subsection \<open>Structures of the caller\<close>

text \<open>
  Every OpenXR structure starts with its tag \<^verbatim>\<open>type\<close> (\<open>ty\<close>). \<open>xr_struct\<close> stands for
  a structure of which this file reads the tag only; \<open>rest\<close> is what else it holds.
  Field names carry a prefix where two structures share a member name.
\<close>

record xr_header =
  ty :: XrStructureType

record xr_struct = xr_header +
  rest :: nat

record XrSessionBeginInfo = xr_header +
  primaryViewConfigurationType :: XrViewConfigurationType

record XrViewLocateInfo = xr_header +
  viewConfigurationType :: XrViewConfigurationType
  displayTime :: int
  vli_space :: addr

text \<open>
  \<^verbatim>\<open>vertices\<close> and \<^verbatim>\<open>indices\<close> are pointers to arrays of the caller; this file only
  compares them with \<^verbatim>\<open>NULL\<close>.
\<close>

record XrVisibilityMaskKHR = xr_header +
  vertexCapacityInput :: nat
  vertexCountOutput :: nat
  vertices :: "nat list option"
  indexCapacityInput :: nat
  indexCountOutput :: nat
  indices :: "nat list option"

subsection \<open>Argument checks\<close>

text \<open>
  Modelled from the spec: the argument macros of \<^verbatim>\<open>oxr_api_verify.h\<close> (specification
  4.1 (c) and (d)). A check that resolves nothing gives \<open>Some\<close> the error it returns
  with, or \<open>None\<close> when it passes.
\<close>

definition OXR_VERIFY_ARG_TYPE_AND_NOT_NULL ::
  "'a xr_header_scheme option \<Rightarrow> XrStructureType \<Rightarrow> XrResult + 'a xr_header_scheme" where
  "OXR_VERIFY_ARG_TYPE_AND_NOT_NULL arg t =
     (case arg of
        None \<Rightarrow> Inl XR_ERROR_VALIDATION_FAILURE
      | Some s \<Rightarrow> if ty s \<noteq> t then Inl XR_ERROR_VALIDATION_FAILURE else Inr s)"

definition OXR_VERIFY_ARG_TYPE_CAN_BE_NULL ::
  "'a xr_header_scheme option \<Rightarrow> XrStructureType \<Rightarrow> XrResult option" where
  "OXR_VERIFY_ARG_TYPE_CAN_BE_NULL arg t =
     (case arg of
        None \<Rightarrow> None
      | Some s \<Rightarrow> if ty s \<noteq> t then Some XR_ERROR_VALIDATION_FAILURE else None)"

definition OXR_VERIFY_ARG_NOT_NULL :: "'a option \<Rightarrow> XrResult option" where
  "OXR_VERIFY_ARG_NOT_NULL arg =
     (case arg of None \<Rightarrow> Some XR_ERROR_VALIDATION_FAILURE | Some _ \<Rightarrow> None)"

definition OXR_VERIFY_EXTENSION :: "bool \<Rightarrow> XrResult option" where
  "OXR_VERIFY_EXTENSION enabled = (if enabled then None else Some XR_ERROR_FUNCTION_UNSUPPORTED)"

text \<open>
  Modelled from the spec: \<^verbatim>\<open>OXR_VERIFY_SESSION_RUNNING\<close> (specification 4.3: the frame
  calls require the session to be begun, else \<^verbatim>\<open>SessionNotRunning\<close>).
\<close>

definition OXR_VERIFY_SESSION_RUNNING :: "oxr_session \<Rightarrow> XrResult option" where
  "OXR_VERIFY_SESSION_RUNNING sess =
     (if has_begun sess then None else Some XR_ERROR_SESSION_NOT_RUNNING)"

subsection \<open>Session lifecycle\<close>



text \<open>
  The walk along \<^verbatim>\<open>next\<close> to the link that holds the session runs off the end of the
  list, through \<^verbatim>\<open>NULL\<close>, when the session is not in it. There is no check for a lost
  session. \<^verbatim>\<open>oxr_handle_destroy\<close> is a parameter.
\<close>

definition oxr_xrDestroySession ::
  "(world \<Rightarrow> addr \<Rightarrow> unit outcome) \<Rightarrow> world \<Rightarrow> addr \<Rightarrow> unit outcome" where
  "oxr_xrDestroySession oxr_handle_destroy w session =
     (case OXR_VERIFY_SESSION w session of
        Inl e \<Rightarrow> Returns e w ()
      | Inr sess \<Rightarrow>
          if session \<notin> set (sessions (inst w)) then Undefined_Behaviour
          else oxr_handle_destroy
                 (w\<lparr>inst := (inst w)\<lparr>sessions := remove1 session (sessions (inst w))\<rparr>\<rparr>)
                 session)"

text \<open>
  \<^verbatim>\<open>OXR_VERIFY_VIEW_CONFIG_TYPE\<close> returns what \<^verbatim>\<open>oxr_verify_view_config_type\<close> returns
  unless that is \<^verbatim>\<open>XR_SUCCESS\<close>; the function is a parameter, as is
  \<^verbatim>\<open>oxr_session_begin\<close>.
\<close>

definition oxr_xrBeginSession ::
  "(oxr_instance \<Rightarrow> XrViewConfigurationType \<Rightarrow> XrResult)
   \<Rightarrow> (world \<Rightarrow> addr \<Rightarrow> XrSessionBeginInfo option \<Rightarrow> unit outcome)
   \<Rightarrow> world \<Rightarrow> addr \<Rightarrow> XrSessionBeginInfo option \<Rightarrow> unit outcome" where
  "oxr_xrBeginSession oxr_verify_view_config_type oxr_session_begin w session beginInfo =
     (case OXR_VERIFY_SESSION w session of
        Inl e \<Rightarrow> Returns e w ()
      | Inr sess \<Rightarrow>
          if has_lost sess then Returns XR_ERROR_SESSION_LOST w ()
          else (case OXR_VERIFY_ARG_TYPE_AND_NOT_NULL beginInfo XR_TYPE_SESSION_BEGIN_INFO of
                  Inl e \<Rightarrow> Returns e w ()
                | Inr bi \<Rightarrow>
                    if oxr_verify_view_config_type (inst w) (primaryViewConfigurationType bi)
                         \<noteq> XR_SUCCESS
                    then Returns (oxr_verify_view_config_type (inst w)
                                    (primaryViewConfigurationType bi)) w ()
                    else if has_begun sess then Returns XR_ERROR_SESSION_RUNNING w ()
                    else oxr_session_begin w session beginInfo))"

definition oxr_xrEndSession ::
  "(world \<Rightarrow> addr \<Rightarrow> unit outcome) \<Rightarrow> world \<Rightarrow> addr \<Rightarrow> unit outcome" where
  "oxr_xrEndSession oxr_session_end w session =
     (case OXR_VERIFY_SESSION w session of
        Inl e \<Rightarrow> Returns e w ()
      | Inr sess \<Rightarrow>
          if has_lost sess then Returns XR_ERROR_SESSION_LOST w ()
          else (case OXR_VERIFY_SESSION_RUNNING sess of
                  Some e \<Rightarrow> Returns e w ()
                | None \<Rightarrow> oxr_session_end w session))"

definition oxr_xrWaitFrame ::
  "(world \<Rightarrow> addr \<Rightarrow> xr_struct option \<Rightarrow> xr_struct option outcome)
   \<Rightarrow> world \<Rightarrow> addr \<Rightarrow> xr_struct option \<Rightarrow> xr_struct option \<Rightarrow> xr_struct option outcome" where
  "oxr_xrWaitFrame oxr_session_frame_wait w session frameWaitInfo frameState =
     (case OXR_VERIFY_SESSION w session of
        Inl e \<Rightarrow> Returns e w frameState
      | Inr sess \<Rightarrow>
          if has_lost sess then Returns XR_ERROR_SESSION_LOST w frameState
          else (case OXR_VERIFY_SESSION_RUNNING sess of
                  Some e \<Rightarrow> Returns e w frameState
                | None \<Rightarrow>
                    (case OXR_VERIFY_ARG_TYPE_CAN_BE_NULL frameWaitInfo XR_TYPE_FRAME_WAIT_INFO of
                       Some e \<Rightarrow> Returns e w frameState
                     | None \<Rightarrow>
                         (case OXR_VERIFY_ARG_TYPE_AND_NOT_NULL frameState XR_TYPE_FRAME_STATE of
                            Inl e \<Rightarrow> Returns e w frameState
                          | Inr _ \<Rightarrow>
                              (case OXR_VERIFY_ARG_NOT_NULL frameState of
                                 Some e \<Rightarrow> Returns e w frameState
                               | None \<Rightarrow> oxr_session_frame_wait w session frameState)))))"

text \<open>
  The RenderDoc capture calls under \<^verbatim>\<open>XRT_FEATURE_RENDERDOC\<close> in \<^verbatim>\<open>oxr_xrBeginFrame\<close>
  and \<^verbatim>\<open>oxr_xrEndFrame\<close> touch nothing of this state and are left out.
\<close>

definition oxr_xrBeginFrame ::
  "(world \<Rightarrow> addr \<Rightarrow> unit outcome) \<Rightarrow> world \<Rightarrow> addr \<Rightarrow> xr_struct option \<Rightarrow> unit outcome" where
  "oxr_xrBeginFrame oxr_session_frame_begin w session frameBeginInfo =
     (case OXR_VERIFY_SESSION w session of
        Inl e \<Rightarrow> Returns e w ()
      | Inr sess \<Rightarrow>
          if has_lost sess then Returns XR_ERROR_SESSION_LOST w ()
          else (case OXR_VERIFY_SESSION_RUNNING sess of
                  Some e \<Rightarrow> Returns e w ()
                | None \<Rightarrow>
                    (case OXR_VERIFY_ARG_TYPE_CAN_BE_NULL frameBeginInfo XR_TYPE_FRAME_BEGIN_INFO of
                       Some e \<Rightarrow> Returns e w ()
                     | None \<Rightarrow> oxr_session_frame_begin w session)))"

definition oxr_xrEndFrame ::
  "(world \<Rightarrow> addr \<Rightarrow> xr_struct option \<Rightarrow> unit outcome)
   \<Rightarrow> world \<Rightarrow> addr \<Rightarrow> xr_struct option \<Rightarrow> unit outcome" where
  "oxr_xrEndFrame oxr_session_frame_end w session frameEndInfo =
     (case OXR_VERIFY_SESSION w session of
        Inl e \<Rightarrow> Returns e w ()
      | Inr sess \<Rightarrow>
          if has_lost sess then Returns XR_ERROR_SESSION_LOST w ()
          else (case OXR_VERIFY_SESSION_RUNNING sess of
                  Some e \<Rightarrow> Returns e w ()
                | None \<Rightarrow>
                    (case OXR_VERIFY_ARG_TYPE_AND_NOT_NULL frameEndInfo XR_TYPE_FRAME_END_INFO of
                       Inl e \<Rightarrow> Returns e w ()
                     | Inr _ \<Rightarrow> oxr_session_frame_end w session frameEndInfo)))"

definition oxr_xrRequestExitSession ::
  "(world \<Rightarrow> addr \<Rightarrow> unit outcome) \<Rightarrow> world \<Rightarrow> addr \<Rightarrow> unit outcome" where
  "oxr_xrRequestExitSession oxr_session_request_exit w session =
     (case OXR_VERIFY_SESSION w session of
        Inl e \<Rightarrow> Returns e w ()
      | Inr sess \<Rightarrow>
          if has_lost sess then Returns XR_ERROR_SESSION_LOST w ()
          else (case OXR_VERIFY_SESSION_RUNNING sess of
                  Some e \<Rightarrow> Returns e w ()
                | None \<Rightarrow> oxr_session_request_exit w session))"

text \<open>
  What a checking loop ends with: it ran to its end, it returned an error, or an
  iteration was undefined.
\<close>

datatype verdict = Passed | Failed XrResult | Undefined_Check

text \<open>
  The loop of \<^verbatim>\<open>oxr_xrLocateViews\<close> over \<^verbatim>\<open>views[i]\<close>, \<open>i\<close> below
  \<^verbatim>\<open>viewCapacityInput\<close>, with the number of iterations left and the index.
\<close>

primrec verify_view_types :: "nat \<Rightarrow> nat \<Rightarrow> xr_struct list \<Rightarrow> verdict" where
  "verify_view_types 0 i views = Passed"
| "verify_view_types (Suc n) i views =
     (if length views \<le> i then Undefined_Check
      else if ty (views ! i) \<noteq> XR_TYPE_VIEW then Failed XR_ERROR_VALIDATION_FAILURE
      else verify_view_types n (Suc i) views)"

type_synonym locate_views_out = "xr_struct option \<times> nat option \<times> xr_struct list option"

definition oxr_xrLocateViews ::
  "(oxr_instance \<Rightarrow> XrViewConfigurationType \<Rightarrow> XrResult)
   \<Rightarrow> (world \<Rightarrow> addr \<Rightarrow> XrViewLocateInfo option \<Rightarrow> nat \<Rightarrow> locate_views_out
        \<Rightarrow> locate_views_out outcome)
   \<Rightarrow> world \<Rightarrow> addr \<Rightarrow> XrViewLocateInfo option \<Rightarrow> nat \<Rightarrow> locate_views_out
   \<Rightarrow> locate_views_out outcome" where
  "oxr_xrLocateViews oxr_verify_view_config_type oxr_session_locate_views w session
       viewLocateInfo viewCapacityInput out =
     (case out of (viewState, viewCountOutput, views) \<Rightarrow>
      (case OXR_VERIFY_SESSION w session of
        Inl e \<Rightarrow> Returns e w out
      | Inr sess \<Rightarrow>
          if has_lost sess then Returns XR_ERROR_SESSION_LOST w out
          else (case OXR_VERIFY_ARG_TYPE_AND_NOT_NULL viewLocateInfo XR_TYPE_VIEW_LOCATE_INFO of
            Inl e \<Rightarrow> Returns e w out
          | Inr vli \<Rightarrow>
          (case OXR_VERIFY_SPACE_NOT_NULL w (vli_space vli) of
            Inl e \<Rightarrow> Returns e w out
          | Inr spc \<Rightarrow>
          (case OXR_VERIFY_ARG_TYPE_AND_NOT_NULL viewState XR_TYPE_VIEW_STATE of
            Inl e \<Rightarrow> Returns e w out
          | Inr _ \<Rightarrow>
          if oxr_verify_view_config_type (inst w) (viewConfigurationType vli) \<noteq> XR_SUCCESS
          then Returns (oxr_verify_view_config_type (inst w) (viewConfigurationType vli)) w out
          else (case (if viewCapacityInput = 0 then OXR_VERIFY_ARG_NOT_NULL viewCountOutput
                      else OXR_VERIFY_ARG_NOT_NULL views) of
            Some e \<Rightarrow> Returns e w out
          | None \<Rightarrow>
          (case verify_view_types viewCapacityInput 0 (case views of None \<Rightarrow> [] | Some vs \<Rightarrow> vs) of
            Undefined_Check \<Rightarrow> Undefined_Behaviour
          | Failed e \<Rightarrow> Returns e w out
          | Passed \<Rightarrow>
              if displayTime vli \<le> 0 then Returns XR_ERROR_TIME_INVALID w out
              else if viewConfigurationType vli \<noteq> view_config_type (system (inst w))
              then Returns XR_ERROR_VIEW_CONFIGURATION_TYPE_UNSUPPORTED w out
              else oxr_session_locate_views w session viewLocateInfo viewCapacityInput out)))))))"

subsection \<open>XR_KHR_visibility_mask\<close>

text \<open>
  The two output counts are set to 0 right after the extension check, before the
  remaining checks and before \<^verbatim>\<open>visibilityMask\<close> itself is compared with \<^verbatim>\<open>NULL\<close>.
  \<^verbatim>\<open>oxr_session_get_visibility_mask\<close> is a parameter. Modelled from the spec:
  \<^verbatim>\<open>OXR_VERIFY_VIEW_INDEX\<close> (specification 4.1 (e), a range check that fails with
  \<^verbatim>\<open>ValidationFailure\<close>); which indices are in range is a parameter.
\<close>

definition oxr_xrGetVisibilityMaskKHR ::
  "(oxr_instance \<Rightarrow> XrViewConfigurationType \<Rightarrow> XrResult)
   \<Rightarrow> (nat \<Rightarrow> bool)
   \<Rightarrow> (world \<Rightarrow> addr \<Rightarrow> XrVisibilityMaskTypeKHR \<Rightarrow> nat \<Rightarrow> XrVisibilityMaskKHR option
        \<Rightarrow> XrVisibilityMaskKHR option outcome)
   \<Rightarrow> world \<Rightarrow> addr \<Rightarrow> XrViewConfigurationType \<Rightarrow> nat \<Rightarrow> XrVisibilityMaskTypeKHR
   \<Rightarrow> XrVisibilityMaskKHR option \<Rightarrow> XrVisibilityMaskKHR option outcome" where
  "oxr_xrGetVisibilityMaskKHR oxr_verify_view_config_type view_index_in_range
       oxr_session_get_visibility_mask w session viewConfigurationType' viewIndex
       visibilityMaskType visibilityMask =
     (case OXR_VERIFY_SESSION w session of
        Inl e \<Rightarrow> Returns e w visibilityMask
      | Inr sess \<Rightarrow>
          if has_lost sess then Returns XR_ERROR_SESSION_LOST w visibilityMask
          else (case OXR_VERIFY_EXTENSION (KHR_visibility_mask (extensions (inst w))) of
            Some e \<Rightarrow> Returns e w visibilityMask
          | None \<Rightarrow>
          (case visibilityMask of
            None \<Rightarrow> Undefined_Behaviour
          | Some m0 \<Rightarrow>
          (let m = m0\<lparr>vertexCountOutput := 0, indexCountOutput := 0\<rparr> in
           if oxr_verify_view_config_type (inst w) viewConfigurationType' \<noteq> XR_SUCCESS
           then Returns (oxr_verify_view_config_type (inst w) viewConfigurationType') w (Some m)
           else if viewConfigurationType' \<noteq> view_config_type (system (inst w))
           then Returns XR_ERROR_VIEW_CONFIGURATION_TYPE_UNSUPPORTED w (Some m)
           else (case (if view_index_in_range viewIndex then None
                       else Some XR_ERROR_VALIDATION_FAILURE) of
             Some e \<Rightarrow> Returns e w (Some m)
           | None \<Rightarrow>
               if visibilityMaskType \<noteq> XR_VISIBILITY_MASK_TYPE_HIDDEN_TRIANGLE_MESH_KHR \<and>
                  visibilityMaskType \<noteq> XR_VISIBILITY_MASK_TYPE_VISIBLE_TRIANGLE_MESH_KHR \<and>
                  visibilityMaskType \<noteq> XR_VISIBILITY_MASK_TYPE_LINE_LOOP_KHR
               then Returns XR_ERROR_VALIDATION_FAILURE w (Some m)
               else (case OXR_VERIFY_ARG_TYPE_AND_NOT_NULL (Some m) XR_TYPE_VISIBILITY_MASK_KHR of
                 Inl e \<Rightarrow> Returns e w (Some m)
               | Inr _ \<Rightarrow>
                   (case (if vertexCapacityInput m \<noteq> 0 then OXR_VERIFY_ARG_NOT_NULL (vertices m)
                          else None) of
                     Some e \<Rightarrow> Returns e w (Some m)
                   | None \<Rightarrow>
                       (case (if indexCapacityInput m \<noteq> 0 then OXR_VERIFY_ARG_NOT_NULL (indices m)
                              else None) of
                         Some e \<Rightarrow> Returns e w (Some m)
                       | None \<Rightarrow>
                           oxr_session_get_visibility_mask w session visibilityMaskType
                             viewIndex (Some m)))))))))"

subsection \<open>XR_EXT_performance_settings, XR_EXT_thermal_query, XR_KHR_android_thread_settings\<close>

definition oxr_xrPerfSettingsSetPerformanceLevelEXT ::
  "(world \<Rightarrow> addr \<Rightarrow> XrPerfSettingsDomainEXT \<Rightarrow> XrPerfSettingsLevelEXT \<Rightarrow> unit outcome)
   \<Rightarrow> world \<Rightarrow> addr \<Rightarrow> XrPerfSettingsDomainEXT \<Rightarrow> XrPerfSettingsLevelEXT \<Rightarrow> unit outcome" where
  "oxr_xrPerfSettingsSetPerformanceLevelEXT oxr_session_set_perf_level w session domain level =
     (case OXR_VERIFY_SESSION w session of
        Inl e \<Rightarrow> Returns e w ()
      | Inr sess \<Rightarrow>
          if has_lost sess then Returns XR_ERROR_SESSION_LOST w ()
          else (case OXR_VERIFY_EXTENSION (EXT_performance_settings (extensions (inst w))) of
            Some e \<Rightarrow> Returns e w ()
          | None \<Rightarrow>
              if domain \<noteq> XR_PERF_SETTINGS_DOMAIN_CPU_EXT \<and> domain \<noteq> XR_PERF_SETTINGS_DOMAIN_GPU_EXT
              then Returns XR_ERROR_VALIDATION_FAILURE w ()
              else if level \<noteq> XR_PERF_SETTINGS_LEVEL_POWER_SAVINGS_EXT \<and>
                      level \<noteq> XR_PERF_SETTINGS_LEVEL_SUSTAINED_LOW_EXT \<and>
                      level \<noteq> XR_PERF_SETTINGS_LEVEL_SUSTAINED_HIGH_EXT \<and>
                      level \<noteq> XR_PERF_SETTINGS_LEVEL_BOOST_EXT
              then Returns XR_ERROR_VALIDATION_FAILURE w ()
              else oxr_session_set_perf_level w session domain level))"

text \<open>
  \<^verbatim>\<open>oxr_xrThermalGetTemperatureTrendEXT\<close> reads none of its other arguments and writes
  none of its outputs.
\<close>

definition oxr_xrThermalGetTemperatureTrendEXT :: "world \<Rightarrow> addr \<Rightarrow> unit outcome" where
  "oxr_xrThermalGetTemperatureTrendEXT w session =
     (case OXR_VERIFY_SESSION w session of
        Inl e \<Rightarrow> Returns e w ()
      | Inr sess \<Rightarrow>
          if has_lost sess then Returns XR_ERROR_SESSION_LOST w ()
          else Returns XR_ERROR_HANDLE_INVALID w ())"

definition oxr_xrSetAndroidApplicationThreadKHR ::
  "(world \<Rightarrow> addr \<Rightarrow> XrAndroidThreadTypeKHR \<Rightarrow> nat \<Rightarrow> unit outcome)
   \<Rightarrow> world \<Rightarrow> addr \<Rightarrow> XrAndroidThreadTypeKHR \<Rightarrow> nat \<Rightarrow> unit outcome" where
  "oxr_xrSetAndroidApplicationThreadKHR oxr_session_android_thread_settings w session
       threadType threadId =
     (case OXR_VERIFY_SESSION w session of
        Inl e \<Rightarrow> Returns e w ()
      | Inr sess \<Rightarrow>
          if has_lost sess then Returns XR_ERROR_SESSION_LOST w ()
          else if threadType \<noteq> XR_ANDROID_THREAD_TYPE_APPLICATION_MAIN_KHR \<and>
                  threadType \<noteq> XR_ANDROID_THREAD_TYPE_APPLICATION_WORKER_KHR \<and>
                  threadType \<noteq> XR_ANDROID_THREAD_TYPE_RENDERER_MAIN_KHR \<and>
                  threadType \<noteq> XR_ANDROID_THREAD_TYPE_RENDERER_WORKER_KHR
          then Returns XR_ERROR_VALIDATION_FAILURE w ()
          else (case OXR_VERIFY_EXTENSION (KHR_android_thread_settings (extensions (inst w))) of
            Some e \<Rightarrow> Returns e w ()
          | None \<Rightarrow> oxr_session_android_thread_settings w session threadType threadId))"

subsection \<open>Handle allocation\<close>

text \<open>
  Modelled from the spec: \<^verbatim>\<open>OXR_ALLOCATE_HANDLE_OR_RETURN\<close> (oxr_handle.h is not among
  the sources). Specification 4.2: allocation inserts the new handle into the parent's
  child set, fails with an out-of-memory error if allocation fails, and never
  partially constructs. The allocator takes the first address it can still hand out;
  the child's parent is the session its \<^verbatim>\<open>sess\<close> field names; the new handle is live.
\<close>

definition OXR_ALLOCATE_HANDLE_OR_RETURN :: "world \<Rightarrow> XrResult + addr" where
  "OXR_ALLOCATE_HANDLE_OR_RETURN w =
     (case avail w of [] \<Rightarrow> Inl XR_ERROR_OUT_OF_MEMORY | a # _ \<Rightarrow> Inr a)"

definition store_handle :: "world \<Rightarrow> addr \<Rightarrow> oxr_object \<Rightarrow> world" where
  "store_handle w a obj = w\<lparr>objs := (objs w)(a \<mapsto> obj), avail := tl (avail w)\<rparr>"

subsection \<open>Constants of the OpenXR and xrt headers\<close>

text \<open>
  The joint and expression counts are constants of \<^verbatim>\<open>openxr.h\<close> and \<^verbatim>\<open>xrt_defines.h\<close>,
  which are not among the sources; they have the values the OpenXR extensions fix.
\<close>

definition XR_HAND_JOINT_COUNT_EXT :: nat where
  "XR_HAND_JOINT_COUNT_EXT = 26"

definition XRT_FACIAL_EXPRESSION_EYE_COUNT_HTC :: nat where
  "XRT_FACIAL_EXPRESSION_EYE_COUNT_HTC = 14"

definition XRT_FACIAL_EXPRESSION_LIP_COUNT_HTC :: nat where
  "XRT_FACIAL_EXPRESSION_LIP_COUNT_HTC = 37"

definition XRT_BODY_JOINT_COUNT_FB :: nat where
  "XRT_BODY_JOINT_COUNT_FB = 70"

definition XRT_FULL_BODY_JOINT_COUNT_META :: nat where
  "XRT_FULL_BODY_JOINT_COUNT_META = 84"

subsection \<open>XR_EXT_hand_tracking\<close>

text \<open>A pose is the seven floats of its orientation and position; this file only copies it.\<close>

type_synonym xrt_pose = "c_float list"

record xr_joint_location =
  locationFlags :: nat
  pose :: xrt_pose

record XrHandTrackerCreateInfoEXT = xr_header +
  htci_hand :: XrHandEXT
  handJointSet :: XrHandJointSetEXT

record XrHandJointsLocateInfoEXT = xr_header +
  hjli_baseSpace :: addr
  hjli_time :: int

record XrHandJointVelocitiesEXT = xr_header +
  vel_jointCount :: nat

text \<open>
  \<open>hjl_velocities\<close> is what \<^verbatim>\<open>OXR_GET_OUTPUT_FROM_CHAIN\<close> finds in the \<^verbatim>\<open>next\<close> chain of
  the locations: the chained \<^verbatim>\<open>XrHandJointVelocitiesEXT\<close>, or \<open>None\<close>.
\<close>

record XrHandJointLocationsEXT = xr_header +
  hjl_velocities :: "XrHandJointVelocitiesEXT option"
  hjl_isActive :: bool
  hjl_jointCount :: nat
  hjl_jointLocations :: "xr_joint_location list option"

text \<open>The loop of \<^verbatim>\<open>oxr_hand_tracker_create\<close> over the inputs of the device.\<close>

definition find_hand_tracking_input :: "XrHandEXT \<Rightarrow> xrt_input_name list \<Rightarrow> xrt_input_name option" where
  "find_hand_tracking_input h ins =
     find (\<lambda>name. (name = XRT_INPUT_GENERIC_HAND_TRACKING_LEFT \<and> h = XR_HAND_LEFT_EXT) \<or>
                   (name = XRT_INPUT_GENERIC_HAND_TRACKING_RIGHT \<and> h = XR_HAND_RIGHT_EXT)) ins"

text \<open>
  \<^verbatim>\<open>oxr_system_get_hand_tracking_support\<close> is a parameter. The handle is allocated
  before the device is looked up, and no branch after the allocation returns an
  error: a tracker whose role has no device, or whose device does not support hand
  tracking or has no matching input, keeps \<^verbatim>\<open>xdev == NULL\<close>. The result carries
  \<^verbatim>\<open>*out_hand_tracker\<close> when it has been written.
\<close>

definition oxr_hand_tracker_create ::
  "(oxr_instance \<Rightarrow> bool) \<Rightarrow> world \<Rightarrow> addr \<Rightarrow> XrHandTrackerCreateInfoEXT \<Rightarrow> addr option outcome" where
  "oxr_hand_tracker_create oxr_system_get_hand_tracking_support w sess createInfo =
     (if \<not> oxr_system_get_hand_tracking_support (inst w)
      then Returns XR_ERROR_FEATURE_UNSUPPORTED w None
      else case OXR_ALLOCATE_HANDLE_OR_RETURN w of
        Inl e \<Rightarrow> Returns e w None
      | Inr a \<Rightarrow>
          (let xdev = (if htci_hand createInfo = XR_HAND_LEFT_EXT
                       then hand_tracking_left (system (inst w))
                       else if htci_hand createInfo = XR_HAND_RIGHT_EXT
                       then hand_tracking_right (system (inst w))
                       else None);
               found = (case xdev of
                          None \<Rightarrow> None
                        | Some d \<Rightarrow>
                            if hand_tracking_supported d
                            then find_hand_tracking_input (htci_hand createInfo) (inputs d)
                            else None);
               hand_tracker =
                 \<lparr>ht_handle_state = OXR_HANDLE_STATE_LIVE, ht_sess = sess,
                  hand = htci_hand createInfo, hand_joint_set = handJointSet createInfo,
                  ht_xdev = (case found of None \<Rightarrow> None | Some _ \<Rightarrow> xdev),
                  input_name = found\<rparr>
           in Returns XR_SUCCESS (store_handle w a (HandTracker hand_tracker)) (Some a)))"

definition oxr_xrCreateHandTrackerEXT ::
  "(oxr_instance \<Rightarrow> bool) \<Rightarrow> world \<Rightarrow> addr \<Rightarrow> XrHandTrackerCreateInfoEXT option \<Rightarrow> addr option
   \<Rightarrow> addr option outcome" where
  "oxr_xrCreateHandTrackerEXT oxr_system_get_hand_tracking_support w session createInfo
       handTracker =
     (case OXR_VERIFY_SESSION w session of
        Inl e \<Rightarrow> Returns e w handTracker
      | Inr sess \<Rightarrow>
          if has_lost sess then Returns XR_ERROR_SESSION_LOST w handTracker
          else (case OXR_VERIFY_ARG_TYPE_AND_NOT_NULL createInfo
                       XR_TYPE_HAND_TRACKER_CREATE_INFO_EXT of
            Inl e \<Rightarrow> Returns e w handTracker
          | Inr ci \<Rightarrow>
          (case OXR_VERIFY_ARG_NOT_NULL handTracker of
            Some e \<Rightarrow> Returns e w handTracker
          | None \<Rightarrow>
          (case OXR_VERIFY_EXTENSION (EXT_hand_tracking (extensions (inst w))) of
            Some e \<Rightarrow> Returns e w handTracker
          | None \<Rightarrow>
              if htci_hand ci \<noteq> XR_HAND_LEFT_EXT \<and> htci_hand ci \<noteq> XR_HAND_RIGHT_EXT
              then Returns XR_ERROR_VALIDATION_FAILURE w handTracker
              else (case oxr_hand_tracker_create oxr_system_get_hand_tracking_support
                           w session ci of
                      Undefined_Behaviour \<Rightarrow> Undefined_Behaviour
                    | Returns ret w1 hand_tracker \<Rightarrow>
                        if ret \<noteq> XR_SUCCESS then Returns ret w1 handTracker
                        else Returns XR_SUCCESS w1 hand_tracker)))))"

text \<open>The tracker destroy calls make no check for a lost session.\<close>

definition oxr_xrDestroyHandTrackerEXT ::
  "(world \<Rightarrow> addr \<Rightarrow> unit outcome) \<Rightarrow> world \<Rightarrow> addr \<Rightarrow> unit outcome" where
  "oxr_xrDestroyHandTrackerEXT oxr_handle_destroy w handTracker =
     (case OXR_VERIFY_HAND_TRACKER w handTracker of
        Inl e \<Rightarrow> Returns e w ()
      | Inr hand_tracker \<Rightarrow> oxr_handle_destroy w handTracker)"

text \<open>
  For the default joint set the joint count must equal \<^verbatim>\<open>XR_HAND_JOINT_COUNT_EXT\<close>;
  the check comes after the time check, and its error is
  \<^verbatim>\<open>XR_ERROR_VALIDATION_FAILURE\<close>. \<^verbatim>\<open>oxr_session_hand_joints\<close> is a parameter.
\<close>

definition oxr_xrLocateHandJointsEXT ::
  "(world \<Rightarrow> addr \<Rightarrow> XrHandJointsLocateInfoEXT option \<Rightarrow> XrHandJointLocationsEXT option
      \<Rightarrow> XrHandJointLocationsEXT option outcome)
   \<Rightarrow> world \<Rightarrow> addr \<Rightarrow> XrHandJointsLocateInfoEXT option \<Rightarrow> XrHandJointLocationsEXT option
   \<Rightarrow> XrHandJointLocationsEXT option outcome" where
  "oxr_xrLocateHandJointsEXT oxr_session_hand_joints w handTracker locateInfo locations =
     (case OXR_VERIFY_HAND_TRACKER w handTracker of
        Inl e \<Rightarrow> Returns e w locations
      | Inr hand_tracker \<Rightarrow>
      (case deref_session w (ht_sess hand_tracker) of
        None \<Rightarrow> Undefined_Behaviour
      | Some sess \<Rightarrow>
          if has_lost sess then Returns XR_ERROR_SESSION_LOST w locations
          else (case OXR_VERIFY_ARG_TYPE_AND_NOT_NULL locateInfo
                       XR_TYPE_HAND_JOINTS_LOCATE_INFO_EXT of
            Inl e \<Rightarrow> Returns e w locations
          | Inr li \<Rightarrow>
          (case OXR_VERIFY_ARG_TYPE_AND_NOT_NULL locations XR_TYPE_HAND_JOINT_LOCATIONS_EXT of
            Inl e \<Rightarrow> Returns e w locations
          | Inr loc \<Rightarrow>
          (case OXR_VERIFY_ARG_NOT_NULL (hjl_jointLocations loc) of
            Some e \<Rightarrow> Returns e w locations
          | None \<Rightarrow>
          (case OXR_VERIFY_SPACE_NOT_NULL w (hjli_baseSpace li) of
            Inl e \<Rightarrow> Returns e w locations
          | Inr spc \<Rightarrow>
              if hjli_time li \<le> 0 then Returns XR_ERROR_TIME_INVALID w locations
              else if hand_joint_set hand_tracker = XR_HAND_JOINT_SET_DEFAULT_EXT \<and>
                      hjl_jointCount loc \<noteq> XR_HAND_JOINT_COUNT_EXT
              then Returns XR_ERROR_VALIDATION_FAILURE w locations
              else (case hjl_velocities loc of
                      None \<Rightarrow> oxr_session_hand_joints w handTracker locateInfo locations
                    | Some vel \<Rightarrow>
                        if vel_jointCount vel = 0
                        then Returns XR_ERROR_VALIDATION_FAILURE w locations
                        else if hand_joint_set hand_tracker = XR_HAND_JOINT_SET_DEFAULT_EXT \<and>
                                vel_jointCount vel \<noteq> XR_HAND_JOINT_COUNT_EXT
                        then Returns XR_ERROR_VALIDATION_FAILURE w locations
                        else oxr_session_hand_joints w handTracker locateInfo locations)))))))"

subsection \<open>XR_MNDX_force_feedback_curl\<close>

text \<open>
  \<^verbatim>\<open>oxr_xrApplyForceFeedbackCurlMNDX\<close> makes no check for a lost session.
  \<^verbatim>\<open>oxr_session_apply_force_feedback\<close> is a parameter.
\<close>

definition oxr_xrApplyForceFeedbackCurlMNDX ::
  "(world \<Rightarrow> addr \<Rightarrow> xr_struct option \<Rightarrow> unit outcome)
   \<Rightarrow> world \<Rightarrow> addr \<Rightarrow> xr_struct option \<Rightarrow> unit outcome" where
  "oxr_xrApplyForceFeedbackCurlMNDX oxr_session_apply_force_feedback w handTracker locations =
     (case OXR_VERIFY_HAND_TRACKER w handTracker of
        Inl e \<Rightarrow> Returns e w ()
      | Inr hand_tracker \<Rightarrow>
          (case OXR_VERIFY_ARG_TYPE_AND_NOT_NULL locations
                  XR_TYPE_FORCE_FEEDBACK_CURL_APPLY_LOCATIONS_MNDX of
             Inl e \<Rightarrow> Returns e w ()
           | Inr _ \<Rightarrow> oxr_session_apply_force_feedback w handTracker locations))"

subsection \<open>XR_FB_display_refresh_rate\<close>

text \<open>
  \<^verbatim>\<open>OXR_TWO_CALL_HELPER\<close> (oxr_two_call.h), \<^verbatim>\<open>oxr_session_get_display_refresh_rate\<close> and
  \<^verbatim>\<open>oxr_session_request_display_refresh_rate\<close> are not among the sources: each is the
  first parameter of the entrypoint that ends in it. A \<^verbatim>\<open>uint32_t *\<close> or \<^verbatim>\<open>float *\<close>
  output is the pointed-to cell in an \<open>option\<close>; writing through \<^verbatim>\<open>NULL\<close> is undefined.
\<close>

definition oxr_xrEnumerateDisplayRefreshRatesFB ::
  "(nat \<Rightarrow> nat option \<Rightarrow> c_float list option \<Rightarrow> 32 word \<Rightarrow> c_float list \<Rightarrow> world
      \<Rightarrow> (nat option \<times> c_float list option) outcome)
   \<Rightarrow> world \<Rightarrow> addr \<Rightarrow> nat \<Rightarrow> nat option \<Rightarrow> c_float list option
   \<Rightarrow> (nat option \<times> c_float list option) outcome" where
  "oxr_xrEnumerateDisplayRefreshRatesFB OXR_TWO_CALL_HELPER w session
       displayRefreshRateCapacityInput displayRefreshRateCountOutput displayRefreshRates =
     (case OXR_VERIFY_SESSION w session of
        Inl e \<Rightarrow> Returns e w (displayRefreshRateCountOutput, displayRefreshRates)
      | Inr sess \<Rightarrow>
          if has_lost sess
          then Returns XR_ERROR_SESSION_LOST w (displayRefreshRateCountOutput, displayRefreshRates)
          else (case xsysc (system (inst w)) of
                  None \<Rightarrow>
                    (case displayRefreshRateCountOutput of
                       None \<Rightarrow> Undefined_Behaviour
                     | Some _ \<Rightarrow> Returns XR_SUCCESS w (Some 0, displayRefreshRates))
                | Some sc \<Rightarrow>
                    OXR_TWO_CALL_HELPER displayRefreshRateCapacityInput
                      displayRefreshRateCountOutput displayRefreshRates
                      (refresh_rate_count sc) (refresh_rates_hz sc) w))"

definition oxr_xrGetDisplayRefreshRateFB ::
  "(world \<Rightarrow> addr \<Rightarrow> c_float option \<Rightarrow> c_float option outcome)
   \<Rightarrow> world \<Rightarrow> addr \<Rightarrow> c_float option \<Rightarrow> c_float option outcome" where
  "oxr_xrGetDisplayRefreshRateFB oxr_session_get_display_refresh_rate w session
       displayRefreshRate =
     (case OXR_VERIFY_SESSION w session of
        Inl e \<Rightarrow> Returns e w displayRefreshRate
      | Inr sess \<Rightarrow>
          if has_lost sess then Returns XR_ERROR_SESSION_LOST w displayRefreshRate
          else (case xsysc (system (inst w)) of
                  None \<Rightarrow>
                    (case displayRefreshRate of
                       None \<Rightarrow> Undefined_Behaviour
                     | Some _ \<Rightarrow> Returns XR_SUCCESS w (Some 0))
                | Some sc \<Rightarrow>
                    if refresh_rate_count sc < 1
                    then Returns XR_ERROR_RUNTIME_FAILURE w displayRefreshRate
                    else oxr_session_get_display_refresh_rate w session displayRefreshRate))"

text \<open>The expression \<^verbatim>\<open>(int)(x * 100.0f)\<close> of the check.\<close>

definition rate_hundredths :: "c_float \<Rightarrow> int option" where
  "rate_hundredths x = c_float_to_int (c_float_mul x 100)"

text \<open>
  The loop of \<^verbatim>\<open>oxr_xrRequestDisplayRefreshRateFB\<close>, with the number of iterations
  left and the index \<open>i\<close>: \<open>Some True\<close> when it leaves with \<^verbatim>\<open>found\<close> set,
  \<open>Some False\<close> when it runs to the end, \<open>None\<close> when an iteration is undefined (the
  index is outside the array, or a product is not an \<^verbatim>\<open>int\<close>). The loop counter is an
  \<^verbatim>\<open>int\<close> and the bound is \<^verbatim>\<open>(int)refresh_rate_count\<close>: the loop makes \<open>sint count\<close>
  iterations from index 0, none when the cast is negative.
\<close>

primrec refresh_rate_loop :: "nat \<Rightarrow> nat \<Rightarrow> c_float \<Rightarrow> c_float list \<Rightarrow> bool option" where
  "refresh_rate_loop 0 i r rates = Some False"
| "refresh_rate_loop (Suc n) i r rates =
     (if length rates \<le> i then None
      else case (rate_hundredths r, rate_hundredths (rates ! i)) of
             (Some a, Some b) \<Rightarrow>
               if a = b then Some True else refresh_rate_loop n (Suc i) r rates
           | _ \<Rightarrow> None)"

definition oxr_xrRequestDisplayRefreshRateFB ::
  "(world \<Rightarrow> addr \<Rightarrow> c_float \<Rightarrow> unit outcome) \<Rightarrow> world \<Rightarrow> addr \<Rightarrow> c_float \<Rightarrow> unit outcome" where
  "oxr_xrRequestDisplayRefreshRateFB oxr_session_request_display_refresh_rate w session
       displayRefreshRate =
     (case OXR_VERIFY_SESSION w session of
        Inl e \<Rightarrow> Returns e w ()
      | Inr sess \<Rightarrow>
          if has_lost sess then Returns XR_ERROR_SESSION_LOST w ()
          else if displayRefreshRate = 0 then Returns XR_SUCCESS w ()
          else (case xsysc (system (inst w)) of
                  None \<Rightarrow> Undefined_Behaviour
                | Some sc \<Rightarrow>
                    (case refresh_rate_loop (nat (sint (refresh_rate_count sc))) 0
                            displayRefreshRate (refresh_rates_hz sc) of
                       None \<Rightarrow> Undefined_Behaviour
                     | Some False \<Rightarrow> Returns XR_ERROR_DISPLAY_REFRESH_RATE_UNSUPPORTED_FB w ()
                     | Some True \<Rightarrow>
                         oxr_session_request_display_refresh_rate w session displayRefreshRate)))"

subsection \<open>XR_HTC_facial_tracking\<close>

record XrFacialTrackerCreateInfoHTC = xr_header +
  facialTrackingType :: xrt_facial_tracking_type_htc

record XrFacialExpressionsHTC = xr_header +
  fe_isActive :: bool
  fe_sampleTime :: int
  expressionCount :: nat
  expressionWeightings :: "c_float list option"

text \<open>
  What \<^verbatim>\<open>xrt_device_get_face_tracking\<close> leaves in the zeroed
  \<^verbatim>\<open>struct xrt_facial_expression_set\<close>: the members of the base set and the weights of
  the variant that was asked for.
\<close>

record xrt_facial_expression_set =
  fes_is_active :: bool
  fes_sample_time_ns :: int
  expression_weights :: "c_float list"

definition oxr_facial_tracking_type_htc_to_input_name ::
  "xrt_facial_tracking_type_htc \<Rightarrow> xrt_input_name" where
  "oxr_facial_tracking_type_htc_to_input_name ft_type =
     (case ft_type of
        XRT_FACIAL_TRACKING_TYPE_LIP_DEFAULT_HTC \<Rightarrow> XRT_INPUT_HTC_LIP_FACE_TRACKING
      | _ \<Rightarrow> XRT_INPUT_HTC_EYE_FACE_TRACKING)"

text \<open>
  \<^verbatim>\<open>oxr_system_get_face_tracking_htc_support\<close> is a parameter; it gives
  \<open>(supports_eye, supports_lip)\<close>.
\<close>

definition oxr_facial_tracker_htc_create ::
  "(oxr_instance \<Rightarrow> bool \<times> bool) \<Rightarrow> world \<Rightarrow> addr \<Rightarrow> XrFacialTrackerCreateInfoHTC
   \<Rightarrow> addr option outcome" where
  "oxr_facial_tracker_htc_create oxr_system_get_face_tracking_htc_support w sess createInfo =
     (case oxr_system_get_face_tracking_htc_support (inst w) of (supports_eye, supports_lip) \<Rightarrow>
      if facialTrackingType createInfo = XRT_FACIAL_TRACKING_TYPE_EYE_DEFAULT_HTC \<and> \<not> supports_eye
      then Returns XR_ERROR_FEATURE_UNSUPPORTED w None
      else if facialTrackingType createInfo = XRT_FACIAL_TRACKING_TYPE_LIP_DEFAULT_HTC \<and>
              \<not> supports_lip
      then Returns XR_ERROR_FEATURE_UNSUPPORTED w None
      else (case face (system (inst w)) of
        None \<Rightarrow> Returns XR_ERROR_FEATURE_UNSUPPORTED w None
      | Some xdev \<Rightarrow>
          if \<not> face_tracking_supported xdev then Returns XR_ERROR_FEATURE_UNSUPPORTED w None
          else (case OXR_ALLOCATE_HANDLE_OR_RETURN w of
            Inl e \<Rightarrow> Returns e w None
          | Inr a \<Rightarrow>
              Returns XR_SUCCESS
                (store_handle w a
                   (FaceTracker \<lparr>ft_handle_state = OXR_HANDLE_STATE_LIVE, ft_sess = sess,
                                 ft_xdev = Some xdev,
                                 facial_tracking_type = facialTrackingType createInfo\<rparr>))
                (Some a))))"

text \<open>\<^verbatim>\<open>*facialTracker\<close> is written without a check of the pointer.\<close>

definition oxr_xrCreateFacialTrackerHTC ::
  "(oxr_instance \<Rightarrow> bool \<times> bool) \<Rightarrow> world \<Rightarrow> addr \<Rightarrow> XrFacialTrackerCreateInfoHTC option
   \<Rightarrow> addr option \<Rightarrow> addr option outcome" where
  "oxr_xrCreateFacialTrackerHTC oxr_system_get_face_tracking_htc_support w session createInfo
       facialTracker =
     (case OXR_VERIFY_SESSION w session of
        Inl e \<Rightarrow> Returns e w facialTracker
      | Inr sess \<Rightarrow>
          if has_lost sess then Returns XR_ERROR_SESSION_LOST w facialTracker
          else (case OXR_VERIFY_ARG_TYPE_AND_NOT_NULL createInfo
                       XR_TYPE_FACIAL_TRACKER_CREATE_INFO_HTC of
            Inl e \<Rightarrow> Returns e w facialTracker
          | Inr ci \<Rightarrow>
          (case OXR_VERIFY_EXTENSION (HTC_facial_tracking (extensions (inst w))) of
            Some e \<Rightarrow> Returns e w facialTracker
          | None \<Rightarrow>
          (case oxr_facial_tracker_htc_create oxr_system_get_face_tracking_htc_support
                  w session ci of
             Undefined_Behaviour \<Rightarrow> Undefined_Behaviour
           | Returns ret w1 facial_tracker_htc \<Rightarrow>
               if ret \<noteq> XR_SUCCESS then Returns ret w1 facialTracker
               else (case OXR_VERIFY_ARG_NOT_NULL facial_tracker_htc of
                 Some e \<Rightarrow> Returns e w1 facialTracker
               | None \<Rightarrow>
                   (case facialTracker of
                      None \<Rightarrow> Undefined_Behaviour
                    | Some _ \<Rightarrow> Returns XR_SUCCESS w1 facial_tracker_htc))))))"

definition oxr_xrDestroyFacialTrackerHTC ::
  "(world \<Rightarrow> addr \<Rightarrow> unit outcome) \<Rightarrow> world \<Rightarrow> addr \<Rightarrow> unit outcome" where
  "oxr_xrDestroyFacialTrackerHTC oxr_handle_destroy w facialTracker =
     (case OXR_VERIFY_FACE_TRACKER_HTC w facialTracker of
        Inl e \<Rightarrow> Returns e w ()
      | Inr facial_tracker_htc \<Rightarrow> oxr_handle_destroy w facialTracker)"

text \<open>
  \<^verbatim>\<open>memcpy(dst, src, sizeof(float) * n)\<close> on arrays: undefined when either array is
  shorter than \<open>n\<close>.
\<close>

definition copy_prefix :: "nat \<Rightarrow> 'a list \<Rightarrow> 'a list \<Rightarrow> 'a list option" where
  "copy_prefix n src dst =
     (if length src < n \<or> length dst < n then None else Some (take n src @ drop n dst))"

text \<open>
  The statements of \<^verbatim>\<open>oxr_xrGetFacialExpressionsHTC\<close> after its checks, on the
  structure \<open>fe\<close> that \<^verbatim>\<open>facialExpressions\<close> points at; they give the structure as
  written. \<^verbatim>\<open>xrt_device_get_face_tracking\<close> and \<^verbatim>\<open>time_state_monotonic_to_ts_ns\<close> are
  parameters; the return value of the former is not looked at.
\<close>

definition get_facial_expressions_queried ::
  "(xrt_device \<Rightarrow> xrt_input_name \<Rightarrow> xrt_facial_expression_set) \<Rightarrow> (int \<Rightarrow> int)
   \<Rightarrow> world \<Rightarrow> oxr_facial_tracker_htc \<Rightarrow> xrt_device \<Rightarrow> XrFacialExpressionsHTC
   \<Rightarrow> c_float list \<Rightarrow> XrFacialExpressionsHTC outcome" where
  "get_facial_expressions_queried xrt_device_get_face_tracking time_state_monotonic_to_ts_ns
       w facial_tracker_htc xdev fe weightings =
     (let is_eye_tracking =
            (facial_tracking_type facial_tracker_htc = XRT_FACIAL_TRACKING_TYPE_EYE_DEFAULT_HTC);
          expression_count =
            (if is_eye_tracking then XRT_FACIAL_EXPRESSION_EYE_COUNT_HTC
             else XRT_FACIAL_EXPRESSION_LIP_COUNT_HTC);
          ft_input_name =
            oxr_facial_tracking_type_htc_to_input_name (facial_tracking_type facial_tracker_htc);
          facial_expression_set_result = xrt_device_get_face_tracking xdev ft_input_name;
          fe1 = fe\<lparr>fe_isActive := fes_is_active facial_expression_set_result\<rparr>
      in if \<not> fe_isActive fe1 then Returns XR_SUCCESS w fe1
         else (case copy_prefix expression_count
                      (expression_weights facial_expression_set_result) weightings of
                 None \<Rightarrow> Undefined_Behaviour
               | Some ws \<Rightarrow>
                   Returns XR_SUCCESS w
                     (fe1\<lparr>fe_sampleTime :=
                             time_state_monotonic_to_ts_ns
                               (fes_sample_time_ns facial_expression_set_result),
                          expressionWeightings := Some ws\<rparr>)))"

text \<open>
  \<^verbatim>\<open>oxr_xrGetFacialExpressionsHTC\<close> hands \<^verbatim>\<open>facialExpressions\<close>, not \<^verbatim>\<open>facialTracker\<close>, to
  \<^verbatim>\<open>OXR_VERIFY_FACE_TRACKER_HTC_AND_INIT_LOG\<close>. Once that check has passed, the pointer
  \<^verbatim>\<open>facialExpressions\<close> is the address of a live facial tracker of the runtime, and every
  \<^verbatim>\<open>facialExpressions->...\<close> after it reads or writes the memory of that tracker: the
  tracker and the \<^verbatim>\<open>XrFacialExpressionsHTC\<close> are the same bytes. Memory of the
  application is no object of the runtime state, fails the handle check, and is not
  reached by any later statement.

  \<^verbatim>\<open>struct oxr_facial_tracker_htc\<close> is declared in \<^verbatim>\<open>oxr_objects.h\<close>, which is not among
  the sources, so what the members of an \<^verbatim>\<open>XrFacialExpressionsHTC\<close> find in the memory
  of a tracker is a parameter, with one exception. The object begins with its handle
  base and that with \<^verbatim>\<open>debug\<close>, the tag which the handle check has just compared with
  \<^verbatim>\<open>OXR_XR_DEBUG_FTRACKER\<close>; \<^verbatim>\<open>facialExpressions->type\<close> reads the leading bytes of that
  tag. The tag of a handle kind is not the type of any OpenXR structure, so the member
  \<^verbatim>\<open>type\<close> reads as a value that is none of the enumerants (\<open>handle_debug\<close> as an \<^verbatim>\<open>int\<close>).
  \<open>read_members\<close> gives the other members as they are read in the memory of a tracker,
  \<open>write_members\<close> the object that the runtime finds at the address once the members
  have been written there.
\<close>

record facial_tracker_layout =
  handle_debug :: int
  read_members :: "oxr_facial_tracker_htc \<Rightarrow> XrFacialExpressionsHTC"
  write_members :: "oxr_facial_tracker_htc \<Rightarrow> XrFacialExpressionsHTC \<Rightarrow> oxr_object"

definition read_as_expressions ::
  "facial_tracker_layout \<Rightarrow> oxr_facial_tracker_htc \<Rightarrow> XrFacialExpressionsHTC" where
  "read_as_expressions layout facial_tracker_htc =
     (read_members layout facial_tracker_htc)
       \<lparr>ty := XrStructureType_other (handle_debug layout)\<rparr>"

text \<open>
  The call returns no output of its own: what it writes, it writes into the object at
  \<^verbatim>\<open>facialExpressions\<close>, which is part of the runtime state. A \<^verbatim>\<open>NULL\<close> pointer fails the
  handle check, so the later check of the pointer finds it non-null.
\<close>

definition oxr_xrGetFacialExpressionsHTC ::
  "(xrt_device \<Rightarrow> xrt_input_name \<Rightarrow> xrt_facial_expression_set) \<Rightarrow> (int \<Rightarrow> int)
   \<Rightarrow> facial_tracker_layout \<Rightarrow> world \<Rightarrow> addr \<Rightarrow> addr \<Rightarrow> unit outcome" where
  "oxr_xrGetFacialExpressionsHTC xrt_device_get_face_tracking time_state_monotonic_to_ts_ns
       layout w facialTracker facialExpressions =
     (case OXR_VERIFY_FACE_TRACKER_HTC w facialExpressions of
        Inl e \<Rightarrow> Returns e w ()
      | Inr facial_tracker_htc \<Rightarrow>
      (case deref_session w (ft_sess facial_tracker_htc) of
        None \<Rightarrow> Undefined_Behaviour
      | Some sess \<Rightarrow>
          if has_lost sess then Returns XR_ERROR_SESSION_LOST w ()
          else (case ft_xdev facial_tracker_htc of
            None \<Rightarrow> Returns XR_ERROR_VALIDATION_FAILURE w ()
          | Some xdev \<Rightarrow>
          (case OXR_VERIFY_ARG_TYPE_AND_NOT_NULL
                  (Some (read_as_expressions layout facial_tracker_htc))
                  XR_TYPE_FACIAL_EXPRESSIONS_HTC of
            Inl e \<Rightarrow> Returns e w ()
          | Inr fe \<Rightarrow>
          (case expressionWeightings fe of
            None \<Rightarrow> Returns XR_ERROR_VALIDATION_FAILURE w ()
          | Some weightings \<Rightarrow>
              if facial_tracking_type facial_tracker_htc = XRT_FACIAL_TRACKING_TYPE_EYE_DEFAULT_HTC \<and>
                 expressionCount fe < XRT_FACIAL_EXPRESSION_EYE_COUNT_HTC
              then Returns XR_ERROR_SIZE_INSUFFICIENT w ()
              else if facial_tracking_type facial_tracker_htc =
                        XRT_FACIAL_TRACKING_TYPE_LIP_DEFAULT_HTC \<and>
                      expressionCount fe < XRT_FACIAL_EXPRESSION_LIP_COUNT_HTC
              then Returns XR_ERROR_SIZE_INSUFFICIENT w ()
              else (case get_facial_expressions_queried xrt_device_get_face_tracking
                           time_state_monotonic_to_ts_ns w facial_tracker_htc xdev fe weightings of
                      Undefined_Behaviour \<Rightarrow> Undefined_Behaviour
                    | Returns ret w1 fe1 \<Rightarrow>
                        Returns ret
                          (w1\<lparr>objs := (objs w1)(facialExpressions \<mapsto>
                                          write_members layout facial_tracker_htc fe1)\<rparr>)
                          ()))))))"

subsection \<open>XR_FB_body_tracking\<close>

record XrBodyTrackerCreateInfoFB = xr_header +
  bodyJointSet :: XrBodyJointSetFB

record xrt_body_skeleton_joint_fb =
  joint :: int
  parent_joint :: int
  sj_pose :: xrt_pose

record XrBodySkeletonJointFB =
  sk_joint :: int
  sk_parentJoint :: int
  sk_pose :: xrt_pose

record XrBodySkeletonFB = xr_header +
  sk_jointCount :: nat
  sk_joints :: "XrBodySkeletonJointFB list option"

record XrBodyJointsLocateInfoFB = xr_header +
  bjli_baseSpace :: addr
  bjli_time :: int

record XrBodyTrackingFidelityStatusMETA = xr_header +
  fidelity :: int

text \<open>
  \<open>bjl_fidelity_status\<close> is what \<^verbatim>\<open>OXR_GET_OUTPUT_FROM_CHAIN\<close> finds in the \<^verbatim>\<open>next\<close> chain
  of the locations: the chained \<^verbatim>\<open>XrBodyTrackingFidelityStatusMETA\<close>, or \<open>None\<close>.
\<close>

record XrBodyJointLocationsFB = xr_header +
  bjl_fidelity_status :: "XrBodyTrackingFidelityStatusMETA option"
  bjl_isActive :: bool
  bjl_confidence :: c_float
  bjl_jointCount :: nat
  bjl_jointLocations :: "xr_joint_location list option"
  bjl_skeletonChangedCount :: nat
  bjl_time :: int

record xrt_space_relation =
  relation_flags :: nat
  rel_pose :: xrt_pose

text \<open>
  \<^verbatim>\<open>struct xrt_body_joint_set\<close>: the members of the base set, the body pose and the
  joint locations of the variant that was asked for (of a joint location the source
  reads the relation only).
\<close>

record xrt_body_joint_set =
  bjs_is_active :: bool
  bjs_sample_time_ns :: int
  bjs_confidence :: c_float
  bjs_skeleton_changed_count :: nat
  bjs_fidelity_status :: int
  body_pose :: xrt_space_relation
  joint_locations :: "xrt_space_relation list"

definition oxr_to_xrt_body_joint_set_type_fb :: "XrBodyJointSetFB \<Rightarrow> xrt_body_joint_set_type_fb" where
  "oxr_to_xrt_body_joint_set_type_fb joint_set_type' =
     (if joint_set_type' = XR_BODY_JOINT_SET_FULL_BODY_META then XRT_BODY_JOINT_SET_FULL_BODY_META
      else if joint_set_type' = XR_BODY_JOINT_SET_DEFAULT_FB then XRT_BODY_JOINT_SET_DEFAULT_FB
      else XRT_BODY_JOINT_SET_UNKNOWN)"

text \<open>
  \<^verbatim>\<open>oxr_system_get_body_tracking_fb_support\<close> and
  \<^verbatim>\<open>oxr_system_get_full_body_tracking_meta_support\<close> are parameters. \<^verbatim>\<open>*bodyTracker\<close> is
  written, after the allocation, without a check of the pointer.
\<close>

definition oxr_xrCreateBodyTrackerFB ::
  "(oxr_instance \<Rightarrow> bool) \<Rightarrow> (oxr_instance \<Rightarrow> bool)
   \<Rightarrow> world \<Rightarrow> addr \<Rightarrow> XrBodyTrackerCreateInfoFB option \<Rightarrow> addr option \<Rightarrow> addr option outcome" where
  "oxr_xrCreateBodyTrackerFB oxr_system_get_body_tracking_fb_support
       oxr_system_get_full_body_tracking_meta_support w session createInfo bodyTracker =
     (case OXR_VERIFY_SESSION w session of
        Inl e \<Rightarrow> Returns e w bodyTracker
      | Inr sess \<Rightarrow>
          if has_lost sess then Returns XR_ERROR_SESSION_LOST w bodyTracker
          else (case OXR_VERIFY_ARG_TYPE_AND_NOT_NULL createInfo
                       XR_TYPE_BODY_TRACKER_CREATE_INFO_FB of
            Inl e \<Rightarrow> Returns e w bodyTracker
          | Inr ci \<Rightarrow>
          (case OXR_VERIFY_EXTENSION (FB_body_tracking (extensions (inst w))) of
            Some e \<Rightarrow> Returns e w bodyTracker
          | None \<Rightarrow>
          (case (if bodyJointSet ci = XR_BODY_JOINT_SET_FULL_BODY_META
                 then OXR_VERIFY_EXTENSION (META_body_tracking_full_body (extensions (inst w)))
                 else None) of
            Some e \<Rightarrow> Returns e w bodyTracker
          | None \<Rightarrow>
              if \<not> oxr_system_get_body_tracking_fb_support (inst w)
              then Returns XR_ERROR_FEATURE_UNSUPPORTED w bodyTracker
              else if oxr_to_xrt_body_joint_set_type_fb (bodyJointSet ci) = XRT_BODY_JOINT_SET_UNKNOWN
              then Returns XR_ERROR_FEATURE_UNSUPPORTED w bodyTracker
              else if oxr_to_xrt_body_joint_set_type_fb (bodyJointSet ci) =
                        XRT_BODY_JOINT_SET_FULL_BODY_META \<and>
                      \<not> oxr_system_get_full_body_tracking_meta_support (inst w)
              then Returns XR_ERROR_FEATURE_UNSUPPORTED w bodyTracker
              else (case body (system (inst w)) of
                None \<Rightarrow> Returns XR_ERROR_FEATURE_UNSUPPORTED w bodyTracker
              | Some xdev \<Rightarrow>
                  if \<not> body_tracking_supported xdev
                  then Returns XR_ERROR_FEATURE_UNSUPPORTED w bodyTracker
                  else (case OXR_ALLOCATE_HANDLE_OR_RETURN w of
                    Inl e \<Rightarrow> Returns e w bodyTracker
                  | Inr a \<Rightarrow>
                      (let w1 = store_handle w a
                                  (BodyTracker
                                     \<lparr>bt_handle_state = OXR_HANDLE_STATE_LIVE, bt_sess = session,
                                      bt_xdev = Some xdev,
                                      joint_set_type =
                                        oxr_to_xrt_body_joint_set_type_fb (bodyJointSet ci)\<rparr>)
                       in case OXR_VERIFY_ARG_NOT_NULL (Some a) of
                            Some e \<Rightarrow> Returns e w1 bodyTracker
                          | None \<Rightarrow>
                              (case bodyTracker of
                                 None \<Rightarrow> Undefined_Behaviour
                               | Some _ \<Rightarrow> Returns XR_SUCCESS w1 (Some a)))))))))"

definition oxr_xrDestroyBodyTrackerFB ::
  "(world \<Rightarrow> addr \<Rightarrow> unit outcome) \<Rightarrow> world \<Rightarrow> addr \<Rightarrow> unit outcome" where
  "oxr_xrDestroyBodyTrackerFB oxr_handle_destroy w bodyTracker =
     (case OXR_VERIFY_BODY_TRACKER_FB w bodyTracker of
        Inl e \<Rightarrow> Returns e w ()
      | Inr body_tracker_fb \<Rightarrow> oxr_handle_destroy w bodyTracker)"

text \<open>
  The copy loop of \<^verbatim>\<open>oxr_xrGetBodySkeletonFB\<close>, with the number of iterations left and
  the index; \<open>None\<close> when it indexes outside an array.
\<close>

primrec copy_skeleton_joints ::
  "nat \<Rightarrow> nat \<Rightarrow> xrt_body_skeleton_joint_fb list \<Rightarrow> XrBodySkeletonJointFB list
   \<Rightarrow> XrBodySkeletonJointFB list option" where
  "copy_skeleton_joints 0 i src dst = Some dst"
| "copy_skeleton_joints (Suc n) i src dst =
     (if length src \<le> i \<or> length dst \<le> i then None
      else copy_skeleton_joints n (Suc i) src
             (dst[i := \<lparr>sk_joint = joint (src ! i), sk_parentJoint = parent_joint (src ! i),
                        sk_pose = sj_pose (src ! i)\<rparr>]))"

text \<open>
  \<^verbatim>\<open>xrt_device_get_body_skeleton\<close> is a parameter: \<open>None\<close> when it does not return
  \<^verbatim>\<open>XRT_SUCCESS\<close>, else the joints of the variant that was asked for.
  \<^verbatim>\<open>skeleton->joints\<close> is indexed without a check of the pointer, and the loop runs at
  least once.
\<close>

definition oxr_xrGetBodySkeletonFB ::
  "(xrt_device \<Rightarrow> xrt_input_name \<Rightarrow> xrt_body_skeleton_joint_fb list option)
   \<Rightarrow> world \<Rightarrow> addr \<Rightarrow> XrBodySkeletonFB option \<Rightarrow> XrBodySkeletonFB option outcome" where
  "oxr_xrGetBodySkeletonFB xrt_device_get_body_skeleton w bodyTracker skeleton =
     (case OXR_VERIFY_BODY_TRACKER_FB w bodyTracker of
        Inl e \<Rightarrow> Returns e w skeleton
      | Inr body_tracker_fb \<Rightarrow>
      (case deref_session w (bt_sess body_tracker_fb) of
        None \<Rightarrow> Undefined_Behaviour
      | Some sess \<Rightarrow>
          if has_lost sess then Returns XR_ERROR_SESSION_LOST w skeleton
          else (case bt_xdev body_tracker_fb of
            None \<Rightarrow> Returns XR_ERROR_VALIDATION_FAILURE w skeleton
          | Some xdev \<Rightarrow>
          (case OXR_VERIFY_ARG_TYPE_AND_NOT_NULL skeleton XR_TYPE_BODY_SKELETON_FB of
            Inl e \<Rightarrow> Returns e w skeleton
          | Inr sk \<Rightarrow>
              if \<not> body_tracking_supported xdev
              then Returns XR_ERROR_FUNCTION_UNSUPPORTED w skeleton
              else
              (let is_meta_full_body =
                     (joint_set_type body_tracker_fb = XRT_BODY_JOINT_SET_FULL_BODY_META);
                   body_joint_count =
                     (if is_meta_full_body then XRT_FULL_BODY_JOINT_COUNT_META
                      else XRT_BODY_JOINT_COUNT_FB);
                   input_name' =
                     (if is_meta_full_body then XRT_INPUT_META_FULL_BODY_TRACKING
                      else XRT_INPUT_FB_BODY_TRACKING)
               in if sk_jointCount sk < body_joint_count
                  then Returns XR_ERROR_VALIDATION_FAILURE w skeleton
                  else (case xrt_device_get_body_skeleton xdev input_name' of
                    None \<Rightarrow> Returns XR_ERROR_RUNTIME_FAILURE w skeleton
                  | Some src_skeleton_joints \<Rightarrow>
                      (case sk_joints sk of
                         None \<Rightarrow> Undefined_Behaviour
                       | Some dst \<Rightarrow>
                           (case copy_skeleton_joints body_joint_count 0 src_skeleton_joints dst of
                              None \<Rightarrow> Undefined_Behaviour
                            | Some dst' \<Rightarrow>
                                Returns XR_SUCCESS w (Some (sk\<lparr>sk_joints := Some dst'\<rparr>))))))))))"

text \<open>
  The functions \<^verbatim>\<open>oxr_xrLocateBodyJointsFB\<close> calls that are not among the sources:
  \<open>xrt_device_get_body_joints\<close> gives \<open>None\<close> when the device does not return
  \<^verbatim>\<open>XRT_SUCCESS\<close>; \<open>oxr_get_base_body_pose\<close> gives its result code and \<^verbatim>\<open>T_base_body\<close>;
  \<open>m_relation_chain_resolve\<close> gets the relations pushed on the chain, in order.
\<close>

record body_joints_env =
  time_state_ts_to_monotonic_ns :: "int \<Rightarrow> int"
  xrt_device_get_body_joints :: "xrt_device \<Rightarrow> xrt_input_name \<Rightarrow> int \<Rightarrow> xrt_body_joint_set option"
  oxr_get_base_body_pose ::
    "world \<Rightarrow> xrt_body_joint_set \<Rightarrow> addr \<Rightarrow> xrt_device \<Rightarrow> int \<Rightarrow> XrResult \<times> xrt_space_relation"
  time_state_monotonic_to_ts_ns :: "int \<Rightarrow> int"
  xrt_to_xr_space_location_flags :: "nat \<Rightarrow> nat"
  m_relation_chain_resolve :: "xrt_space_relation list \<Rightarrow> xrt_space_relation"

text \<open>
  The loop of the inactive branch: it sets \<^verbatim>\<open>locationFlags\<close> of the joints below its
  bound to \<^verbatim>\<open>XRT_SPACE_RELATION_BITMASK_NONE\<close> (0).
\<close>

primrec clear_location_flags ::
  "nat \<Rightarrow> nat \<Rightarrow> xr_joint_location list \<Rightarrow> xr_joint_location list option" where
  "clear_location_flags 0 i js = Some js"
| "clear_location_flags (Suc n) i js =
     (if length js \<le> i then None
      else clear_location_flags n (Suc i) (js[i := (js ! i)\<lparr>locationFlags := 0\<rparr>]))"

text \<open>The loop of the active branch over the joints of the variant.\<close>

primrec locate_joints ::
  "body_joints_env \<Rightarrow> xrt_space_relation \<Rightarrow> nat \<Rightarrow> nat \<Rightarrow> xrt_space_relation list
   \<Rightarrow> xr_joint_location list \<Rightarrow> xr_joint_location list option" where
  "locate_joints env T_base_body 0 i src js = Some js"
| "locate_joints env T_base_body (Suc n) i src js =
     (if length src \<le> i \<or> length js \<le> i then None
      else locate_joints env T_base_body n (Suc i) src
             (js[i := \<lparr>locationFlags =
                         xrt_to_xr_space_location_flags env (relation_flags (src ! i)),
                       pose = rel_pose (m_relation_chain_resolve env [src ! i, T_base_body])\<rparr>]))"

text \<open>
  The statements of \<^verbatim>\<open>oxr_xrLocateBodyJointsFB\<close> after its checks, from the time
  conversion on. The inactive branch clears the flags of \<^verbatim>\<open>XRT_BODY_JOINT_COUNT_FB\<close>
  joints, whatever the variant; the active branch writes \<^verbatim>\<open>body_joint_count\<close> joints.
\<close>

definition locate_body_joints_queried ::
  "body_joints_env \<Rightarrow> world \<Rightarrow> oxr_body_tracker_fb \<Rightarrow> xrt_device \<Rightarrow> XrBodyJointsLocateInfoFB
   \<Rightarrow> XrBodyJointLocationsFB \<Rightarrow> xr_joint_location list \<Rightarrow> addr
   \<Rightarrow> XrBodyJointLocationsFB option outcome" where
  "locate_body_joints_queried env w body_tracker_fb xdev li loc js base_spc =
     (let is_meta_full_body =
            (joint_set_type body_tracker_fb = XRT_BODY_JOINT_SET_FULL_BODY_META);
          body_joint_count =
            (if is_meta_full_body then XRT_FULL_BODY_JOINT_COUNT_META
             else XRT_BODY_JOINT_COUNT_FB);
          at_timestamp_ns = time_state_ts_to_monotonic_ns env (bjli_time li);
          input_name' =
            (if is_meta_full_body then XRT_INPUT_META_FULL_BODY_TRACKING
             else XRT_INPUT_FB_BODY_TRACKING)
      in case xrt_device_get_body_joints env xdev input_name' at_timestamp_ns of
        None \<Rightarrow> Returns XR_ERROR_RUNTIME_FAILURE w (Some loc)
      | Some body_joint_set_result \<Rightarrow>
      (case oxr_get_base_body_pose env w body_joint_set_result base_spc xdev (bjli_time li) of
        (ret, T_base_body) \<Rightarrow>
          if ret \<noteq> XR_SUCCESS then Returns ret w (Some (loc\<lparr>bjl_isActive := False\<rparr>))
          else if \<not> bjs_is_active body_joint_set_result \<or> relation_flags T_base_body = 0
          then (case clear_location_flags XRT_BODY_JOINT_COUNT_FB 0 js of
                  None \<Rightarrow> Undefined_Behaviour
                | Some js' \<Rightarrow>
                    Returns XR_SUCCESS w
                      (Some (loc\<lparr>bjl_isActive := False, bjl_jointLocations := Some js'\<rparr>)))
          else (case locate_joints env T_base_body body_joint_count 0
                       (joint_locations body_joint_set_result) js of
                  None \<Rightarrow> Undefined_Behaviour
                | Some js' \<Rightarrow>
                    (let loc1 = loc\<lparr>bjl_isActive := bjs_is_active body_joint_set_result,
                                    bjl_time := time_state_monotonic_to_ts_ns env
                                                  (bjs_sample_time_ns body_joint_set_result),
                                    bjl_confidence := bjs_confidence body_joint_set_result,
                                    bjl_skeletonChangedCount :=
                                      bjs_skeleton_changed_count body_joint_set_result,
                                    bjl_jointLocations := Some js'\<rparr>
                     in case bjl_fidelity_status loc1 of
                          None \<Rightarrow> Returns XR_SUCCESS w (Some loc1)
                        | Some fidelity_status \<Rightarrow>
                            (case OXR_VERIFY_EXTENSION
                                    (META_body_tracking_fidelity (extensions (inst w))) of
                               Some e \<Rightarrow> Returns e w (Some loc1)
                             | None \<Rightarrow>
                                 if \<not> body_tracking_fidelity_supported xdev
                                 then Returns XR_ERROR_FEATURE_UNSUPPORTED w (Some loc1)
                                 else Returns XR_SUCCESS w
                                        (Some (loc1\<lparr>bjl_fidelity_status :=
                                                 Some (fidelity_status
                                                   \<lparr>fidelity := bjs_fidelity_status
                                                                   body_joint_set_result\<rparr>)\<rparr>)))))))"

text \<open>
  \<^verbatim>\<open>oxr_xrLocateBodyJointsFB\<close>: the two argument checks come before the check for a
  lost session, and an insufficient joint count is \<^verbatim>\<open>XR_ERROR_VALIDATION_FAILURE\<close>.
\<close>

definition oxr_xrLocateBodyJointsFB ::
  "body_joints_env \<Rightarrow> world \<Rightarrow> addr \<Rightarrow> XrBodyJointsLocateInfoFB option
   \<Rightarrow> XrBodyJointLocationsFB option \<Rightarrow> XrBodyJointLocationsFB option outcome" where
  "oxr_xrLocateBodyJointsFB env w bodyTracker locateInfo locations =
     (case OXR_VERIFY_BODY_TRACKER_FB w bodyTracker of
        Inl e \<Rightarrow> Returns e w locations
      | Inr body_tracker_fb \<Rightarrow>
      (case OXR_VERIFY_ARG_TYPE_AND_NOT_NULL locateInfo XR_TYPE_BODY_JOINTS_LOCATE_INFO_FB of
        Inl e \<Rightarrow> Returns e w locations
      | Inr li \<Rightarrow>
      (case OXR_VERIFY_ARG_TYPE_AND_NOT_NULL locations XR_TYPE_BODY_JOINT_LOCATIONS_FB of
        Inl e \<Rightarrow> Returns e w locations
      | Inr loc \<Rightarrow>
      (case deref_session w (bt_sess body_tracker_fb) of
        None \<Rightarrow> Undefined_Behaviour
      | Some sess \<Rightarrow>
          if has_lost sess then Returns XR_ERROR_SESSION_LOST w locations
          else (case bt_xdev body_tracker_fb of
            None \<Rightarrow> Returns XR_ERROR_VALIDATION_FAILURE w locations
          | Some xdev \<Rightarrow>
          (case bjl_jointLocations loc of
            None \<Rightarrow> Returns XR_ERROR_VALIDATION_FAILURE w locations
          | Some js \<Rightarrow>
          (case OXR_VERIFY_SPACE_NOT_NULL w (bjli_baseSpace li) of
            Inl e \<Rightarrow> Returns e w locations
          | Inr base_spc \<Rightarrow>
              if \<not> body_tracking_supported xdev
              then Returns XR_ERROR_FUNCTION_UNSUPPORTED w locations
              else if bjl_jointCount loc <
                        (if joint_set_type body_tracker_fb = XRT_BODY_JOINT_SET_FULL_BODY_META
                         then XRT_FULL_BODY_JOINT_COUNT_META else XRT_BODY_JOINT_COUNT_FB)
              then Returns XR_ERROR_VALIDATION_FAILURE w locations
              else if bjli_time li \<le> 0 then Returns XR_ERROR_TIME_INVALID w locations
              else locate_body_joints_queried env w body_tracker_fb xdev li loc js base_spc)))))))"

text \<open>
  \<^verbatim>\<open>xrt_device_set_body_tracking_fidelity_meta\<close> is a parameter; its result is returned
  as it is.
\<close>

definition oxr_xrRequestBodyTrackingFidelityMETA ::
  "(world \<Rightarrow> xrt_device \<Rightarrow> int \<Rightarrow> unit outcome) \<Rightarrow> world \<Rightarrow> addr \<Rightarrow> int \<Rightarrow> unit outcome" where
  "oxr_xrRequestBodyTrackingFidelityMETA xrt_device_set_body_tracking_fidelity_meta w
       bodyTracker fidelity' =
     (case OXR_VERIFY_BODY_TRACKER_FB w bodyTracker of
        Inl e \<Rightarrow> Returns e w ()
      | Inr body_tracker_fb \<Rightarrow>
      (case deref_session w (bt_sess body_tracker_fb) of
        None \<Rightarrow> Undefined_Behaviour
      | Some sess \<Rightarrow>
          if has_lost sess then Returns XR_ERROR_SESSION_LOST w ()
          else (case bt_xdev body_tracker_fb of
            None \<Rightarrow> Returns XR_ERROR_VALIDATION_FAILURE w ()
          | Some xdev \<Rightarrow>
          (case OXR_VERIFY_EXTENSION (META_body_tracking_fidelity (extensions (inst w))) of
            Some e \<Rightarrow> Returns e w ()
          | None \<Rightarrow>
              if \<not> body_tracking_fidelity_supported xdev
              then Returns XR_ERROR_FEATURE_UNSUPPORTED w ()
              else xrt_device_set_body_tracking_fidelity_meta w xdev fidelity'))))"

section \<open>Example states\<close>

text \<open>
  A runtime state for the concrete evaluations below: a live session at address 1
  that has not begun, a live session at address 2 that is lost, and a live session at
  address 3 that has begun.
\<close>

definition ex_session :: "bool \<Rightarrow> bool \<Rightarrow> oxr_session" where
  "ex_session begun lost =
     \<lparr>sess_handle_state = OXR_HANDLE_STATE_LIVE, has_begun = begun, has_lost = lost\<rparr>"

text \<open>
  A device that supports every kind of tracking, a hand tracker of session 1 at
  address 4 and one of the lost session 2 at address 5, an eye tracker of session 1 at
  address 6, a full-body tracker of session 1 at address 7 and a default-set body
  tracker of the lost session 2 at address 8, and a space at address 9.
\<close>

definition ex_device :: xrt_device where
  "ex_device =
     \<lparr>hand_tracking_supported = True, face_tracking_supported = True,
      body_tracking_supported = True, body_tracking_fidelity_supported = True,
      inputs = [XRT_INPUT_GENERIC_HAND_TRACKING_LEFT, XRT_INPUT_HTC_EYE_FACE_TRACKING,
                XRT_INPUT_META_FULL_BODY_TRACKING]\<rparr>"

definition ex_hand_tracker :: "addr \<Rightarrow> oxr_hand_tracker" where
  "ex_hand_tracker s =
     \<lparr>ht_handle_state = OXR_HANDLE_STATE_LIVE, ht_sess = s, hand = XR_HAND_LEFT_EXT,
      hand_joint_set = XR_HAND_JOINT_SET_DEFAULT_EXT, ht_xdev = Some ex_device,
      input_name = Some XRT_INPUT_GENERIC_HAND_TRACKING_LEFT\<rparr>"

definition ex_face_tracker :: oxr_facial_tracker_htc where
  "ex_face_tracker =
     \<lparr>ft_handle_state = OXR_HANDLE_STATE_LIVE, ft_sess = 1, ft_xdev = Some ex_device,
      facial_tracking_type = XRT_FACIAL_TRACKING_TYPE_EYE_DEFAULT_HTC\<rparr>"

definition ex_body_tracker :: "addr \<Rightarrow> xrt_body_joint_set_type_fb \<Rightarrow> oxr_body_tracker_fb" where
  "ex_body_tracker s v =
     \<lparr>bt_handle_state = OXR_HANDLE_STATE_LIVE, bt_sess = s, bt_xdev = Some ex_device,
      joint_set_type = v\<rparr>"

definition ex_objs :: "addr \<Rightarrow> oxr_object option" where
  "ex_objs a =
     (if a = 1 then Some (Session (ex_session False False))
      else if a = 2 then Some (Session (ex_session False True))
      else if a = 3 then Some (Session (ex_session True False))
      else if a = 4 then Some (HandTracker (ex_hand_tracker 1))
      else if a = 5 then Some (HandTracker (ex_hand_tracker 2))
      else if a = 6 then Some (FaceTracker ex_face_tracker)
      else if a = 7 then Some (BodyTracker (ex_body_tracker 1 XRT_BODY_JOINT_SET_FULL_BODY_META))
      else if a = 8 then Some (BodyTracker (ex_body_tracker 2 XRT_BODY_JOINT_SET_DEFAULT_FB))
      else if a = 9 then Some (Space OXR_HANDLE_STATE_LIVE)
      else None)"

definition ex_extensions :: oxr_extensions where
  "ex_extensions =
     \<lparr>KHR_visibility_mask = True, EXT_performance_settings = True, EXT_hand_tracking = True,
      KHR_android_thread_settings = True, HTC_facial_tracking = True, FB_body_tracking = True,
      META_body_tracking_full_body = True, META_body_tracking_fidelity = True\<rparr>"

text \<open>A system with no device bound to any role: headless, or with 60 Hz as its one rate.\<close>

definition ex_system :: "xrt_system_compositor option \<Rightarrow> oxr_system" where
  "ex_system sc =
     \<lparr>view_config_type = XR_VIEW_CONFIGURATION_TYPE_PRIMARY_STEREO, xsysc = sc,
      hand_tracking_left = None, hand_tracking_right = None, face = None, body = None\<rparr>"

definition ex_60hz :: xrt_system_compositor where
  "ex_60hz = \<lparr>refresh_rate_count = 1, refresh_rates_hz = [60]\<rparr>"

definition ex_world :: "oxr_system \<Rightarrow> (addr \<Rightarrow> oxr_object option) \<Rightarrow> world" where
  "ex_world sys os =
     \<lparr>objs = os,
      inst = \<lparr>inst_handle_state = OXR_HANDLE_STATE_LIVE, extensions = ex_extensions,
              system = sys, sessions = [1, 2, 3]\<rparr>,
      inst_at = 100, avail = [10, 11]\<rparr>"

text \<open>
  An output structure for the eye tracker, a locate request at the space of address 9,
  and a device and collaborators for \<^verbatim>\<open>oxr_xrLocateBodyJointsFB\<close>: the device reports
  a joint set that is not active (or fails), the base pose is found (or not).
\<close>

definition ex_expressions :: "nat \<Rightarrow> XrFacialExpressionsHTC" where
  "ex_expressions n =
     \<lparr>ty = XR_TYPE_FACIAL_EXPRESSIONS_HTC, fe_isActive = True, fe_sampleTime = 0,
      expressionCount = n, expressionWeightings = Some (replicate n 0)\<rparr>"

definition ex_inactive_face :: "xrt_device \<Rightarrow> xrt_input_name \<Rightarrow> xrt_facial_expression_set" where
  "ex_inactive_face d n =
     \<lparr>fes_is_active = False, fes_sample_time_ns = 0, expression_weights = replicate 37 0\<rparr>"

definition ex_body_locate_info :: XrBodyJointsLocateInfoFB where
  "ex_body_locate_info =
     \<lparr>ty = XR_TYPE_BODY_JOINTS_LOCATE_INFO_FB, bjli_baseSpace = 9, bjli_time = 1000\<rparr>"

definition ex_joint :: "nat \<Rightarrow> xr_joint_location" where
  "ex_joint f = \<lparr>locationFlags = f, pose = []\<rparr>"

definition ex_body_locations :: "nat \<Rightarrow> XrBodyJointLocationsFB" where
  "ex_body_locations n =
     \<lparr>ty = XR_TYPE_BODY_JOINT_LOCATIONS_FB, bjl_fidelity_status = None, bjl_isActive = True,
      bjl_confidence = 0, bjl_jointCount = n,
      bjl_jointLocations = Some (replicate n (ex_joint 1)),
      bjl_skeletonChangedCount = 0, bjl_time = 0\<rparr>"

definition ex_relation :: xrt_space_relation where
  "ex_relation = \<lparr>relation_flags = 3, rel_pose = []\<rparr>"

definition ex_inactive_joint_set :: xrt_body_joint_set where
  "ex_inactive_joint_set =
     \<lparr>bjs_is_active = False, bjs_sample_time_ns = 0, bjs_confidence = 0,
      bjs_skeleton_changed_count = 0, bjs_fidelity_status = 0, body_pose = ex_relation,
      joint_locations = replicate 84 ex_relation\<rparr>"

definition ex_body_env :: "XrResult \<Rightarrow> body_joints_env" where
  "ex_body_env base_pose_result =
     \<lparr>time_state_ts_to_monotonic_ns = (\<lambda>t. t),
      xrt_device_get_body_joints = (\<lambda>d n t. Some ex_inactive_joint_set),
      oxr_get_base_body_pose = (\<lambda>w s b d t. (base_pose_result, ex_relation)),
      time_state_monotonic_to_ts_ns = (\<lambda>t. t),
      xrt_to_xr_space_location_flags = (\<lambda>f. f),
      m_relation_chain_resolve = (\<lambda>rs. ex_relation)\<rparr>"

text \<open>
  A hand-joint query at the space of address 9, and requests to create a tracker for
  one hand.
\<close>

definition ex_hand_locate_info :: XrHandJointsLocateInfoEXT where
  "ex_hand_locate_info =
     \<lparr>ty = XR_TYPE_HAND_JOINTS_LOCATE_INFO_EXT, hjli_baseSpace = 9, hjli_time = 1000\<rparr>"

definition ex_hand_locations :: "nat \<Rightarrow> XrHandJointLocationsEXT" where
  "ex_hand_locations n =
     \<lparr>ty = XR_TYPE_HAND_JOINT_LOCATIONS_EXT, hjl_velocities = None, hjl_isActive = False,
      hjl_jointCount = n, hjl_jointLocations = Some (replicate n (ex_joint 1))\<rparr>"

definition ex_hand_create_info :: "XrHandEXT \<Rightarrow> XrHandTrackerCreateInfoEXT" where
  "ex_hand_create_info h =
     \<lparr>ty = XR_TYPE_HAND_TRACKER_CREATE_INFO_EXT, htci_hand = h,
      handJointSet = XR_HAND_JOINT_SET_DEFAULT_EXT\<rparr>"

text \<open>
  A system whose left-hand role is served by the example device and whose right-hand
  role has no device, and a system-level answer to "is hand tracking supported" that
  holds when the device of either hand supports it.
\<close>

definition ex_system_left_hand :: oxr_system where
  "ex_system_left_hand = (ex_system None)\<lparr>hand_tracking_left := Some ex_device\<rparr>"

definition ex_either_hand_supported :: "oxr_instance \<Rightarrow> bool" where
  "ex_either_hand_supported i =
     ((case hand_tracking_left (system i) of None \<Rightarrow> False | Some d \<Rightarrow> hand_tracking_supported d) \<or>
      (case hand_tracking_right (system i) of None \<Rightarrow> False | Some d \<Rightarrow> hand_tracking_supported d))"

text \<open>
  A layout for the example calls on the facial tracker: the leading bytes of the handle
  tag read as some \<^verbatim>\<open>int\<close>, the other members read as those of the example structure,
  and writing the members leaves the tracker as the runtime knows it.
\<close>

definition ex_layout :: facial_tracker_layout where
  "ex_layout =
     \<lparr>handle_debug = 1718777967, read_members = (\<lambda>tr. ex_expressions 14),
      write_members = (\<lambda>tr fe. FaceTracker tr)\<rparr>"




subsection \<open>Handle destruction as the specification describes it\<close>

text \<open>
  Modelled from the spec: \<^verbatim>\<open>oxr_handle_destroy\<close> (oxr_handle_base.c is not among the
  sources). Specification 4.2: destroying a handle invokes its destroy callback,
  removes it from its parent's child set and marks it dead; specification 3: the
  children of a handle are destroyed with it. A tracker is a child of the session its
  \<^verbatim>\<open>sess\<close> member names. It is used only to show that the condition the theorem on the
  destroy calls puts on its parameter can be met.
\<close>

definition mark_destroyed :: "oxr_object \<Rightarrow> oxr_object" where
  "mark_destroyed ob =
     (case ob of
        Session s \<Rightarrow> Session (s\<lparr>sess_handle_state := OXR_HANDLE_STATE_DESTROYED\<rparr>)
      | HandTracker t \<Rightarrow> HandTracker (t\<lparr>ht_handle_state := OXR_HANDLE_STATE_DESTROYED\<rparr>)
      | FaceTracker t \<Rightarrow> FaceTracker (t\<lparr>ft_handle_state := OXR_HANDLE_STATE_DESTROYED\<rparr>)
      | BodyTracker t \<Rightarrow> BodyTracker (t\<lparr>bt_handle_state := OXR_HANDLE_STATE_DESTROYED\<rparr>)
      | Space st \<Rightarrow> Space OXR_HANDLE_STATE_DESTROYED)"

definition parent_of :: "oxr_object \<Rightarrow> addr option" where
  "parent_of ob =
     (case ob of
        HandTracker t \<Rightarrow> Some (ht_sess t)
      | FaceTracker t \<Rightarrow> Some (ft_sess t)
      | BodyTracker t \<Rightarrow> Some (bt_sess t)
      | _ \<Rightarrow> None)"

definition oxr_handle_destroy :: "world \<Rightarrow> addr \<Rightarrow> unit outcome" where
  "oxr_handle_destroy w h =
     Returns XR_SUCCESS
       (w\<lparr>objs := (\<lambda>a. case objs w a of
                          None \<Rightarrow> None
                        | Some ob \<Rightarrow>
                            if a = h \<or> parent_of ob = Some h then Some (mark_destroyed ob)
                            else Some ob)\<rparr>)
       ()"

subsection \<open>A session begin operation as the specification describes it\<close>

text \<open>
  Modelled from the spec: \<^verbatim>\<open>oxr_session_begin\<close> (oxr_session.c is not among the
  sources). Specification 4.3: beginning requires the requested primary
  view-configuration type to match the one supported by the system, and on success
  sets \<^verbatim>\<open>has_begun = true\<close>. It is used only to show that the condition the theorem
  on \<^verbatim>\<open>oxr_xrBeginSession\<close> puts on its parameter can be met.
\<close>

definition oxr_session_begin :: "world \<Rightarrow> addr \<Rightarrow> XrSessionBeginInfo option \<Rightarrow> unit outcome" where
  "oxr_session_begin w session beginInfo =
     (case (objs w session, beginInfo) of
        (Some (Session sess), Some bi) \<Rightarrow>
          if primaryViewConfigurationType bi \<noteq> view_config_type (system (inst w))
          then Returns XR_ERROR_VIEW_CONFIGURATION_TYPE_UNSUPPORTED w ()
          else Returns XR_SUCCESS
                 (w\<lparr>objs := (objs w)(session \<mapsto> Session (sess\<lparr>has_begun := True\<rparr>))\<rparr>) ()
      | _ \<Rightarrow> Undefined_Behaviour)"

definition ex_begin_info :: XrSessionBeginInfo where
  "ex_begin_info =
     \<lparr>ty = XR_TYPE_SESSION_BEGIN_INFO,
      primaryViewConfigurationType = XR_VIEW_CONFIGURATION_TYPE_PRIMARY_STEREO\<rparr>"

section \<open>Vocabulary of the properties\<close>


definition returns_success :: "'a outcome \<Rightarrow> bool" where
  "returns_success r = (\<exists>w out. r = Returns XR_SUCCESS w out)"



text \<open>Collaborators for the example calls: each returns \<^verbatim>\<open>XR_SUCCESS\<close> and changes nothing.\<close>

definition ex_handle_op :: "world \<Rightarrow> addr \<Rightarrow> unit outcome" where
  "ex_handle_op w h = Returns XR_SUCCESS w ()"

definition ex_feedback_op :: "world \<Rightarrow> addr \<Rightarrow> xr_struct option \<Rightarrow> unit outcome" where
  "ex_feedback_op w h locations = Returns XR_SUCCESS w ()"

definition ex_hand_joints_op ::
  "world \<Rightarrow> addr \<Rightarrow> XrHandJointsLocateInfoEXT option \<Rightarrow> XrHandJointLocationsEXT option
   \<Rightarrow> XrHandJointLocationsEXT option outcome" where
  "ex_hand_joints_op w h li loc = Returns XR_SUCCESS w loc"


section \<open>Properties\<close>

subsection \<open>Evaluation of the float model\<close>

lemma floor_rat_numeral_div: "\<lfloor>numeral a / numeral b :: rat\<rfloor> = numeral a div numeral b"
  by (metis floor_divide_of_int_eq of_int_numeral)

lemmas f32_eval = rate_hundredths_def c_float_to_int_def c_float_mul_def f32_round_def
  f32_exponent_def pow2_def round_half_even_def Let_def eval_nat_numeral floor_rat_numeral_div

text \<open>
  The binary32 values nearest to 59.999, 59.94 (written \<open>2997 / 50\<close>) and 60.009, and
  the hundredths the check computes for them and for 60.
\<close>

lemma f32_59_999: "f32_round (59999 / 1000) = 15728378 / 2 ^ 18"
  by (simp add: f32_eval)

lemma f32_59_94: "f32_round (2997 / 50) = 15712911 / 2 ^ 18"
  by (simp add: f32_eval)

lemma f32_60_009: "f32_round (60009 / 1000) = 15730999 / 2 ^ 18"
  by (simp add: f32_eval)

lemma f32_nonzero:
  "f32_round (59999 / 1000) \<noteq> 0" "f32_round (2997 / 50) \<noteq> 0" "f32_round (60009 / 1000) \<noteq> 0"
  by (simp_all add: f32_59_999 f32_59_94 f32_60_009)

lemma hundredths_59_999: "rate_hundredths (f32_round (59999 / 1000)) = Some 5999"
  by (simp add: f32_eval)

lemma hundredths_59_94: "rate_hundredths (f32_round (2997 / 50)) = Some 5994"
  by (simp add: f32_eval)

lemma hundredths_60_009: "rate_hundredths (f32_round (60009 / 1000)) = Some 6000"
  by (simp add: f32_eval)

lemma hundredths_60: "rate_hundredths 60 = Some 6000"
  by (simp add: f32_eval)

lemma hundredths_90: "rate_hundredths 90 = Some 9000"
  by (simp add: f32_eval)

subsection \<open>The example states\<close>

lemma ex_verify_session_1:
  "OXR_VERIFY_SESSION (ex_world sys ex_objs) 1 = Inr (ex_session False False)"
  by (simp add: OXR_VERIFY_SESSION_def ex_world_def ex_objs_def ex_session_def)

lemma ex_verify_session_2:
  "OXR_VERIFY_SESSION (ex_world sys ex_objs) 2 = Inr (ex_session False True)"
  by (simp add: OXR_VERIFY_SESSION_def ex_world_def ex_objs_def ex_session_def)

lemma ex_verify_session_3:
  "OXR_VERIFY_SESSION (ex_world sys ex_objs) 3 = Inr (ex_session True False)"
  by (simp add: OXR_VERIFY_SESSION_def ex_world_def ex_objs_def ex_session_def)

lemma ex_xsysc: "xsysc (system (inst (ex_world (ex_system sc) os))) = sc"
  by (simp add: ex_world_def ex_system_def)

subsection \<open>The refresh-rate loop\<close>

lemma refresh_rate_loop_Some:
  "refresh_rate_loop n i r rates = Some b \<Longrightarrow>
   b = (\<exists>j. i \<le> j \<and> j < i + n \<and> rate_hundredths (rates ! j) = rate_hundredths r)"
proof (induction n arbitrary: i)
  case 0
  then show ?case by simp
next
  case (Suc n)
  from Suc.prems obtain x y where
    xy: "rate_hundredths r = Some x" "rate_hundredths (rates ! i) = Some y"
    by (auto split: if_splits option.splits)
  show ?case
  proof (cases "x = y")
    case True
    with Suc.prems xy have "b" by (simp split: if_splits)
    moreover have "i \<le> i \<and> i < i + Suc n \<and> rate_hundredths (rates ! i) = rate_hundredths r"
      using xy True by simp
    ultimately show ?thesis by blast
  next
    case False
    with Suc.prems xy have rec: "refresh_rate_loop n (Suc i) r rates = Some b"
      by (simp split: if_splits)
    have "b = (\<exists>j. Suc i \<le> j \<and> j < Suc i + n \<and> rate_hundredths (rates ! j) = rate_hundredths r)"
      by (rule Suc.IH [OF rec])
    moreover have "rate_hundredths (rates ! i) \<noteq> rate_hundredths r"
      using xy False by simp
    ultimately show ?thesis
      by (metis Suc_leD Suc_leI add_Suc_right add_Suc_shift le_neq_implies_less)
  qed
qed

lemma refresh_rate_loop_defined:
  "i + n \<le> length rates \<Longrightarrow> rate_hundredths r \<noteq> None \<Longrightarrow>
   \<forall>j < i + n. rate_hundredths (rates ! j) \<noteq> None \<Longrightarrow>
   refresh_rate_loop n i r rates \<noteq> None"
proof (induction n arbitrary: i)
  case 0
  then show ?case by simp
next
  case (Suc n)
  have "refresh_rate_loop n (Suc i) r rates \<noteq> None"
    using Suc.prems by (intro Suc.IH) auto
  moreover have "rate_hundredths (rates ! i) \<noteq> None" "\<not> length rates \<le> i"
    using Suc.prems by auto
  ultimately show ?case
    using Suc.prems(2) by (auto split: option.splits)
qed

subsection \<open>Refresh-rate calls\<close>

lemma enumerate_refresh_rates_headless:
  assumes "OXR_VERIFY_SESSION w session = Inr sess" and "\<not> has_lost sess"
    and "xsysc (system (inst w)) = None"
  shows "oxr_xrEnumerateDisplayRefreshRatesFB two_call w session cap (Some n) rates =
           Returns XR_SUCCESS w (Some 0, rates)"
  using assms by (simp add: oxr_xrEnumerateDisplayRefreshRatesFB_def)

lemma get_refresh_rate_headless:
  assumes "OXR_VERIFY_SESSION w session = Inr sess" and "\<not> has_lost sess"
    and "xsysc (system (inst w)) = None"
  shows "oxr_xrGetDisplayRefreshRateFB get_rate w session (Some x) = Returns XR_SUCCESS w (Some 0)"
  using assms by (simp add: oxr_xrGetDisplayRefreshRateFB_def)

text \<open>
  C3 (the code departs from the claim). On a headless system the enumerate and get
  calls answer 0, as the two lemmas above show, but
  \<^verbatim>\<open>oxr_xrRequestDisplayRefreshRateFB\<close> has no headless guard: for every requested rate
  other than 0 its loop condition reads \<^verbatim>\<open>sess->sys->xsysc->info.refresh_rate_count\<close>
  through the \<^verbatim>\<open>NULL\<close> pointer \<^verbatim>\<open>xsysc\<close>, which is undefined behaviour.
\<close>

theorem request_refresh_rate_headless_undefined:
  assumes "OXR_VERIFY_SESSION w session = Inr sess" and "\<not> has_lost sess"
    and "xsysc (system (inst w)) = None" and "r \<noteq> 0"
  shows "oxr_xrRequestDisplayRefreshRateFB request_rate w session r = Undefined_Behaviour"
  using assms by (simp add: oxr_xrRequestDisplayRefreshRateFB_def)

theorem request_refresh_rate_headless_undefined_witness:
  "oxr_xrRequestDisplayRefreshRateFB (\<lambda>w s r. Returns XR_SUCCESS w ())
     (ex_world (ex_system None) ex_objs) 1 90 = Undefined_Behaviour"
proof -
  have lost: "\<not> has_lost (ex_session False False)"
    by (simp add: ex_session_def)
  have rate: "(90 :: c_float) \<noteq> 0"
    by simp
  show ?thesis
    by (rule request_refresh_rate_headless_undefined [OF ex_verify_session_1 lost ex_xsysc rate])
qed

text \<open>
  C4 (amended). On a live session that is not lost, with a compositor whose first
  \<^verbatim>\<open>(int)refresh_rate_count\<close> rates lie inside the array, a request for a rate other than
  0 passes the check exactly when \<^verbatim>\<open>(int)(rate * 100.0f)\<close> of the request equals that of
  one of these rates (every product being an \<^verbatim>\<open>int\<close>): then the call is
  \<^verbatim>\<open>oxr_session_request_display_refresh_rate\<close>, otherwise it returns
  \<^verbatim>\<open>XR_ERROR_DISPLAY_REFRESH_RATE_UNSUPPORTED_FB\<close> and changes nothing.
\<close>

theorem request_refresh_rate_accepted_iff:
  assumes "OXR_VERIFY_SESSION w session = Inr sess" and "\<not> has_lost sess"
    and "r \<noteq> 0" and "xsysc (system (inst w)) = Some sc"
    and "nat (sint (refresh_rate_count sc)) \<le> length (refresh_rates_hz sc)"
    and "rate_hundredths r \<noteq> None"
    and "\<forall>j < nat (sint (refresh_rate_count sc)). rate_hundredths (refresh_rates_hz sc ! j) \<noteq> None"
  shows "oxr_xrRequestDisplayRefreshRateFB request_rate w session r =
           (if \<exists>j < nat (sint (refresh_rate_count sc)).
                 rate_hundredths (refresh_rates_hz sc ! j) = rate_hundredths r
            then request_rate w session r
            else Returns XR_ERROR_DISPLAY_REFRESH_RATE_UNSUPPORTED_FB w ())"
proof -
  let ?n = "nat (sint (refresh_rate_count sc))"
  have "refresh_rate_loop ?n 0 r (refresh_rates_hz sc) \<noteq> None"
    using assms(5-7) by (intro refresh_rate_loop_defined) auto
  then obtain b where b: "refresh_rate_loop ?n 0 r (refresh_rates_hz sc) = Some b"
    by blast
  have iff: "b = (\<exists>j < ?n. rate_hundredths (refresh_rates_hz sc ! j) = rate_hundredths r)"
    using refresh_rate_loop_Some [OF b] by simp
  have "oxr_xrRequestDisplayRefreshRateFB request_rate w session r =
          (if b then request_rate w session r
           else Returns XR_ERROR_DISPLAY_REFRESH_RATE_UNSUPPORTED_FB w ())"
    using assms(1-4) b by (cases b) (simp_all add: oxr_xrRequestDisplayRefreshRateFB_def)
  then show ?thesis
    by (simp only: iff)
qed

text \<open>
  With 60 Hz as the one supported rate: a request for 60.009 (as a \<^verbatim>\<open>float\<close>) is
  passed on, a request for 59.94 is refused.
\<close>

theorem request_refresh_rate_accepted_iff_witness:
  "oxr_xrRequestDisplayRefreshRateFB (\<lambda>w s r. Returns XR_SUCCESS w ())
     (ex_world (ex_system (Some ex_60hz)) ex_objs) 1 (f32_round (60009 / 1000)) =
     Returns XR_SUCCESS (ex_world (ex_system (Some ex_60hz)) ex_objs) ()
   \<and> oxr_xrRequestDisplayRefreshRateFB (\<lambda>w s r. Returns XR_SUCCESS w ())
     (ex_world (ex_system (Some ex_60hz)) ex_objs) 1 (f32_round (2997 / 50)) =
     Returns XR_ERROR_DISPLAY_REFRESH_RATE_UNSUPPORTED_FB
       (ex_world (ex_system (Some ex_60hz)) ex_objs) ()"
proof -
  have lost: "\<not> has_lost (ex_session False False)"
    by (simp add: ex_session_def)
  have n: "nat (sint (refresh_rate_count ex_60hz)) = 1" "refresh_rates_hz ex_60hz = [60]"
    by (simp_all add: ex_60hz_def)
  have a: "oxr_xrRequestDisplayRefreshRateFB (\<lambda>w s r. Returns XR_SUCCESS w ())
     (ex_world (ex_system (Some ex_60hz)) ex_objs) 1 (f32_round (60009 / 1000)) =
     Returns XR_SUCCESS (ex_world (ex_system (Some ex_60hz)) ex_objs) ()"
    by (subst request_refresh_rate_accepted_iff [OF ex_verify_session_1 lost f32_nonzero(3) ex_xsysc])
      (simp_all add: n hundredths_60 hundredths_60_009)
  have b: "oxr_xrRequestDisplayRefreshRateFB (\<lambda>w s r. Returns XR_SUCCESS w ())
     (ex_world (ex_system (Some ex_60hz)) ex_objs) 1 (f32_round (2997 / 50)) =
     Returns XR_ERROR_DISPLAY_REFRESH_RATE_UNSUPPORTED_FB
       (ex_world (ex_system (Some ex_60hz)) ex_objs) ()"
    by (subst request_refresh_rate_accepted_iff [OF ex_verify_session_1 lost f32_nonzero(2) ex_xsysc])
      (simp_all add: n hundredths_60 hundredths_59_94)
  show ?thesis
    using a b by (rule conjI)
qed

text \<open>
  The claim's own example fails: with 60 Hz supported, a request for 59.999 (as a
  \<^verbatim>\<open>float\<close>) gives 5999 hundredths against 6000 and is refused, although the operation
  behind the check would have succeeded.
\<close>

theorem request_59_999_counterexample:
  "oxr_xrRequestDisplayRefreshRateFB (\<lambda>w s r. Returns XR_SUCCESS w ())
     (ex_world (ex_system (Some ex_60hz)) ex_objs) 1 (f32_round (59999 / 1000)) =
     Returns XR_ERROR_DISPLAY_REFRESH_RATE_UNSUPPORTED_FB
       (ex_world (ex_system (Some ex_60hz)) ex_objs) ()"
proof -
  have lost: "\<not> has_lost (ex_session False False)"
    by (simp add: ex_session_def)
  have n: "nat (sint (refresh_rate_count ex_60hz)) = Suc 0" "refresh_rates_hz ex_60hz = [60]"
    by (simp_all add: ex_60hz_def)
  have loop: "refresh_rate_loop (nat (sint (refresh_rate_count ex_60hz))) 0
                (f32_round (59999 / 1000)) (refresh_rates_hz ex_60hz) = Some False"
    by (simp add: n hundredths_60 hundredths_59_999)
  have v: "OXR_VERIFY_SESSION (ex_world (ex_system (Some ex_60hz)) ex_objs) 1 =
             Inr (ex_session False False)"
    by (rule ex_verify_session_1)
  show ?thesis
    unfolding oxr_xrRequestDisplayRefreshRateFB_def v ex_xsysc
    by (simp add: lost f32_nonzero loop)
qed

text \<open>
  C5. On a live session that is not lost, whatever its lifecycle state and whether or
  not the system has a compositor, a request for the rate 0 returns \<^verbatim>\<open>XR_SUCCESS\<close> and
  leaves the runtime state as it was; the operation behind the check is not called.
\<close>

theorem request_refresh_rate_zero:
  assumes "OXR_VERIFY_SESSION w session = Inr sess" and "\<not> has_lost sess"
  shows "oxr_xrRequestDisplayRefreshRateFB request_rate w session 0 = Returns XR_SUCCESS w ()"
  using assms by (simp add: oxr_xrRequestDisplayRefreshRateFB_def)

theorem request_refresh_rate_zero_witness:
  "oxr_xrRequestDisplayRefreshRateFB (\<lambda>w s r. Undefined_Behaviour)
     (ex_world (ex_system None) ex_objs) 3 0 =
     Returns XR_SUCCESS (ex_world (ex_system None) ex_objs) ()"
proof -
  have lost: "\<not> has_lost (ex_session True False)"
    by (simp add: ex_session_def)
  show ?thesis
    by (rule request_refresh_rate_zero [OF ex_verify_session_3 lost])
qed

subsection \<open>Handle checks\<close>

lemma verify_session_Inl:
  "OXR_VERIFY_SESSION w h = Inl e \<Longrightarrow> e = XR_ERROR_HANDLE_INVALID"
  by (auto simp: OXR_VERIFY_SESSION_def split: if_splits option.splits oxr_object.splits)


lemma verify_face_tracker_Inl:
  "OXR_VERIFY_FACE_TRACKER_HTC w h = Inl e \<Longrightarrow> e = XR_ERROR_HANDLE_INVALID"
  by (auto simp: OXR_VERIFY_FACE_TRACKER_HTC_def split: if_splits option.splits oxr_object.splits)


lemma ex_objs_at:
  "ex_objs 4 = Some (HandTracker (ex_hand_tracker 1))"
  "ex_objs 5 = Some (HandTracker (ex_hand_tracker 2))"
  "ex_objs 6 = Some (FaceTracker ex_face_tracker)"
  "ex_objs 7 = Some (BodyTracker (ex_body_tracker 1 XRT_BODY_JOINT_SET_FULL_BODY_META))"
  "ex_objs 8 = Some (BodyTracker (ex_body_tracker 2 XRT_BODY_JOINT_SET_DEFAULT_FB))"
  "ex_objs 9 = Some (Space OXR_HANDLE_STATE_LIVE)"
  "ex_objs 20 = None"
  by (simp_all add: ex_objs_def)

lemma ex_verify_trackers:
  "OXR_VERIFY_HAND_TRACKER (ex_world sys ex_objs) 4 = Inr (ex_hand_tracker 1)"
  "OXR_VERIFY_HAND_TRACKER (ex_world sys ex_objs) 5 = Inr (ex_hand_tracker 2)"
  "OXR_VERIFY_FACE_TRACKER_HTC (ex_world sys ex_objs) 6 = Inr ex_face_tracker"
  "OXR_VERIFY_FACE_TRACKER_HTC (ex_world sys ex_objs) 20 = Inl XR_ERROR_HANDLE_INVALID"
  "OXR_VERIFY_BODY_TRACKER_FB (ex_world sys ex_objs) 7 =
     Inr (ex_body_tracker 1 XRT_BODY_JOINT_SET_FULL_BODY_META)"
  "OXR_VERIFY_BODY_TRACKER_FB (ex_world sys ex_objs) 8 =
     Inr (ex_body_tracker 2 XRT_BODY_JOINT_SET_DEFAULT_FB)"
  "OXR_VERIFY_SPACE_NOT_NULL (ex_world sys ex_objs) 9 = Inr 9"
  by (simp_all add: OXR_VERIFY_HAND_TRACKER_def OXR_VERIFY_FACE_TRACKER_HTC_def
      OXR_VERIFY_BODY_TRACKER_FB_def OXR_VERIFY_SPACE_NOT_NULL_def ex_world_def ex_objs_at
      ex_hand_tracker_def ex_face_tracker_def ex_body_tracker_def)

lemma ex_deref_session:
  "deref_session (ex_world sys ex_objs) 1 = Some (ex_session False False)"
  "deref_session (ex_world sys ex_objs) (Suc 0) = Some (ex_session False False)"
  "deref_session (ex_world sys ex_objs) 2 = Some (ex_session False True)"
  by (simp_all add: deref_session_def ex_world_def ex_objs_def)

lemma ex_verify_session_Suc_0:
  "OXR_VERIFY_SESSION (ex_world sys ex_objs) (Suc 0) = Inr (ex_session False False)"
  using ex_verify_session_1 [of sys] by simp

subsection \<open>The facial-expression query\<close>

lemma get_facial_expressions_queried_not_handle_invalid:
  "get_facial_expressions_queried g t w tr xdev fe ws \<noteq> Returns XR_ERROR_HANDLE_INVALID w' fe'"
  by (auto simp: get_facial_expressions_queried_def Let_def split: option.splits)

text \<open>
  The tag check of \<^verbatim>\<open>oxr_xrGetFacialExpressionsHTC\<close> reads the handle tag of the tracker
  that the handle check has found, and fails.
\<close>

lemma facial_tracker_tag_check:
  "OXR_VERIFY_ARG_TYPE_AND_NOT_NULL (Some (read_as_expressions layout tr))
     XR_TYPE_FACIAL_EXPRESSIONS_HTC = Inl XR_ERROR_VALIDATION_FAILURE"
  by (simp add: OXR_VERIFY_ARG_TYPE_AND_NOT_NULL_def read_as_expressions_def)

text \<open>
  So a call whose \<^verbatim>\<open>facialExpressions\<close> passes the handle check ends at one of the three
  checks that follow: it never comes to the check of the expression count, to the
  device, or to a write.
\<close>

lemma get_facial_expressions_on_tracker:
  assumes "OXR_VERIFY_FACE_TRACKER_HTC w facialExpressions = Inr tr"
    and "deref_session w (ft_sess tr) = Some sess"
  shows "oxr_xrGetFacialExpressionsHTC g t layout w facialTracker facialExpressions =
           (if has_lost sess then Returns XR_ERROR_SESSION_LOST w ()
            else Returns XR_ERROR_VALIDATION_FAILURE w ())"
  using assms
  by (simp add: oxr_xrGetFacialExpressionsHTC_def facial_tracker_tag_check
      split: option.splits)


text \<open>
  C10. \<^verbatim>\<open>oxr_xrGetFacialExpressionsHTC\<close> makes its handle check on the pointer
  \<^verbatim>\<open>facialExpressions\<close>: the outcome does not depend on \<^verbatim>\<open>facialTracker\<close> at all; when
  the object at \<^verbatim>\<open>facialExpressions\<close> fails the tracker-handle check the call returns
  \<^verbatim>\<open>XR_ERROR_HANDLE_INVALID\<close> and changes nothing, whatever \<^verbatim>\<open>facialTracker\<close> is; and
  when it passes, the call goes on to its later checks and never returns
  \<^verbatim>\<open>XR_ERROR_HANDLE_INVALID\<close>.
\<close>

theorem get_facial_expressions_checks_output_pointer:
  "oxr_xrGetFacialExpressionsHTC g t layout w facialTracker facialExpressions =
     oxr_xrGetFacialExpressionsHTC g t layout w facialTracker' facialExpressions
   \<and> (\<forall>e. OXR_VERIFY_FACE_TRACKER_HTC w facialExpressions = Inl e \<longrightarrow>
          oxr_xrGetFacialExpressionsHTC g t layout w facialTracker facialExpressions =
            Returns XR_ERROR_HANDLE_INVALID w ())
   \<and> (\<forall>tr. OXR_VERIFY_FACE_TRACKER_HTC w facialExpressions = Inr tr \<longrightarrow>
          (\<forall>w'. oxr_xrGetFacialExpressionsHTC g t layout w facialTracker facialExpressions \<noteq>
                  Returns XR_ERROR_HANDLE_INVALID w' ()))"
proof (intro conjI allI impI)
  show "oxr_xrGetFacialExpressionsHTC g t layout w facialTracker facialExpressions =
     oxr_xrGetFacialExpressionsHTC g t layout w facialTracker' facialExpressions"
    by (simp add: oxr_xrGetFacialExpressionsHTC_def)
next
  fix e assume "OXR_VERIFY_FACE_TRACKER_HTC w facialExpressions = Inl e"
  then show "oxr_xrGetFacialExpressionsHTC g t layout w facialTracker facialExpressions =
            Returns XR_ERROR_HANDLE_INVALID w ()"
    using verify_face_tracker_Inl [of w facialExpressions e]
    by (simp add: oxr_xrGetFacialExpressionsHTC_def)
next
  fix tr w' assume "OXR_VERIFY_FACE_TRACKER_HTC w facialExpressions = Inr tr"
  then show "oxr_xrGetFacialExpressionsHTC g t layout w facialTracker facialExpressions \<noteq>
                  Returns XR_ERROR_HANDLE_INVALID w' ()"
    using get_facial_expressions_queried_not_handle_invalid [of g t w tr]
    by (auto simp: oxr_xrGetFacialExpressionsHTC_def OXR_VERIFY_ARG_TYPE_AND_NOT_NULL_def
        split: option.splits sum.splits if_splits outcome.splits)
qed

text \<open>
  With the live eye tracker at address 6: passing it as \<^verbatim>\<open>facialTracker\<close> with an
  output structure at address 20, which holds no object of the runtime, is refused,
  and passing the tracker's own address as \<^verbatim>\<open>facialExpressions\<close> with a \<^verbatim>\<open>NULL\<close>
  \<^verbatim>\<open>facialTracker\<close> is not.
\<close>

theorem get_facial_expressions_checks_output_pointer_witness:
  "oxr_xrGetFacialExpressionsHTC ex_inactive_face (\<lambda>t. t) ex_layout
     (ex_world (ex_system None) ex_objs) 6 20 =
     Returns XR_ERROR_HANDLE_INVALID (ex_world (ex_system None) ex_objs) ()
   \<and> oxr_xrGetFacialExpressionsHTC ex_inactive_face (\<lambda>t. t) ex_layout
       (ex_world (ex_system None) ex_objs) 0 6 \<noteq>
     Returns XR_ERROR_HANDLE_INVALID (ex_world (ex_system None) ex_objs) ()"
  using get_facial_expressions_checks_output_pointer
    [of ex_inactive_face "\<lambda>t. t" ex_layout "ex_world (ex_system None) ex_objs" 6 20 6]
    get_facial_expressions_checks_output_pointer
    [of ex_inactive_face "\<lambda>t. t" ex_layout "ex_world (ex_system None) ex_objs" 0 6 0]
  by (simp add: ex_verify_trackers)

text \<open>
  What the second call returns: the tracker at address 6 belongs to the session at
  address 1, which is not lost, and has a device, so the call ends at the tag check.
\<close>

lemma get_facial_expressions_on_tracker_example:
  "oxr_xrGetFacialExpressionsHTC ex_inactive_face (\<lambda>t. t) ex_layout
     (ex_world (ex_system None) ex_objs) 0 6 =
   Returns XR_ERROR_VALIDATION_FAILURE (ex_world (ex_system None) ex_objs) ()"
  by (simp add: get_facial_expressions_on_tracker
      [where tr = ex_face_tracker and sess = "ex_session False False"]
      ex_verify_trackers ex_deref_session ex_face_tracker_def ex_session_def)

subsection \<open>The body-joint query\<close>

lemma clear_location_flags_Some:
  "i + n \<le> length js \<Longrightarrow>
   \<exists>js'. clear_location_flags n i js = Some js' \<and> length js' = length js \<and>
     (\<forall>k < length js. js' ! k =
        (if i \<le> k \<and> k < i + n then (js ! k)\<lparr>locationFlags := 0\<rparr> else js ! k))"
proof (induction n arbitrary: i js)
  case 0
  then show ?case by simp
next
  case (Suc n)
  let ?js1 = "js[i := (js ! i)\<lparr>locationFlags := 0\<rparr>]"
  have "Suc i + n \<le> length ?js1" using Suc.prems by simp
  from Suc.IH [OF this] obtain js' where
    js': "clear_location_flags n (Suc i) ?js1 = Some js'" "length js' = length ?js1"
      "\<forall>k < length ?js1. js' ! k =
        (if Suc i \<le> k \<and> k < Suc i + n then (?js1 ! k)\<lparr>locationFlags := 0\<rparr> else ?js1 ! k)"
    by blast
  have "clear_location_flags (Suc n) i js = Some js'"
    using Suc.prems js'(1) by simp
  moreover have "length js' = length js" using js'(2) by simp
  moreover have "\<forall>k < length js. js' ! k =
        (if i \<le> k \<and> k < i + Suc n then (js ! k)\<lparr>locationFlags := 0\<rparr> else js ! k)"
  proof (intro allI impI)
    fix k assume k: "k < length js"
    with js'(3) have "js' ! k =
        (if Suc i \<le> k \<and> k < Suc i + n then (?js1 ! k)\<lparr>locationFlags := 0\<rparr> else ?js1 ! k)"
      by simp
    then show "js' ! k =
        (if i \<le> k \<and> k < i + Suc n then (js ! k)\<lparr>locationFlags := 0\<rparr> else js ! k)"
      using k by (cases "k = i") (auto simp: nth_list_update)
  qed
  ultimately show ?case by blast
qed

text \<open>When every check passes, the call is the statements after the checks.\<close>

lemma locate_body_joints_validated:
  assumes "OXR_VERIFY_BODY_TRACKER_FB w bodyTracker = Inr tr"
    and "ty li = XR_TYPE_BODY_JOINTS_LOCATE_INFO_FB"
    and "ty loc = XR_TYPE_BODY_JOINT_LOCATIONS_FB"
    and "deref_session w (bt_sess tr) = Some sess" and "\<not> has_lost sess"
    and "bt_xdev tr = Some xdev" and "body_tracking_supported xdev"
    and "bjl_jointLocations loc = Some js"
    and "OXR_VERIFY_SPACE_NOT_NULL w (bjli_baseSpace li) = Inr spc"
    and "(if joint_set_type tr = XRT_BODY_JOINT_SET_FULL_BODY_META
          then XRT_FULL_BODY_JOINT_COUNT_META else XRT_BODY_JOINT_COUNT_FB) \<le> bjl_jointCount loc"
    and "0 < bjli_time li"
  shows "oxr_xrLocateBodyJointsFB env w bodyTracker (Some li) (Some loc) =
           locate_body_joints_queried env w tr xdev li loc js spc"
  using assms
  by (simp add: oxr_xrLocateBodyJointsFB_def OXR_VERIFY_ARG_TYPE_AND_NOT_NULL_def not_less
      del: if_split split del: if_split)

text \<open>
  C9 (the code departs from the claim). A body-joint query that passes every check,
  whose device reports a joint set that is not active and whose base pose is found,
  returns \<^verbatim>\<open>XR_SUCCESS\<close> with \<^verbatim>\<open>isActive\<close> false and has cleared the location flags of
  the joints below \<^verbatim>\<open>XRT_BODY_JOINT_COUNT_FB\<close> (70) only: every joint from that index on
  is as the caller passed it. For the full-body variant, with 84 joints, the flags of
  the last 14 joints are therefore not cleared.
\<close>

theorem locate_body_joints_inactive_clears_70:
  assumes "OXR_VERIFY_BODY_TRACKER_FB w bodyTracker = Inr tr"
    and "ty li = XR_TYPE_BODY_JOINTS_LOCATE_INFO_FB"
    and "ty loc = XR_TYPE_BODY_JOINT_LOCATIONS_FB"
    and "deref_session w (bt_sess tr) = Some sess" and "\<not> has_lost sess"
    and "bt_xdev tr = Some xdev" and "body_tracking_supported xdev"
    and "bjl_jointLocations loc = Some js"
    and "OXR_VERIFY_SPACE_NOT_NULL w (bjli_baseSpace li) = Inr spc"
    and "(if joint_set_type tr = XRT_BODY_JOINT_SET_FULL_BODY_META
          then XRT_FULL_BODY_JOINT_COUNT_META else XRT_BODY_JOINT_COUNT_FB) \<le> bjl_jointCount loc"
    and "0 < bjli_time li"
    and "xrt_device_get_body_joints env xdev
           (if joint_set_type tr = XRT_BODY_JOINT_SET_FULL_BODY_META
            then XRT_INPUT_META_FULL_BODY_TRACKING else XRT_INPUT_FB_BODY_TRACKING)
           (time_state_ts_to_monotonic_ns env (bjli_time li)) = Some joint_set"
    and "\<not> bjs_is_active joint_set"
    and "oxr_get_base_body_pose env w joint_set spc xdev (bjli_time li) = (XR_SUCCESS, T)"
    and "XRT_BODY_JOINT_COUNT_FB \<le> length js"
  shows "\<exists>js'. oxr_xrLocateBodyJointsFB env w bodyTracker (Some li) (Some loc) =
                 Returns XR_SUCCESS w
                   (Some (loc\<lparr>bjl_isActive := False, bjl_jointLocations := Some js'\<rparr>))
               \<and> length js' = length js
               \<and> (\<forall>k < length js. js' ! k =
                    (if k < XRT_BODY_JOINT_COUNT_FB then (js ! k)\<lparr>locationFlags := 0\<rparr>
                     else js ! k))"
proof -
  from clear_location_flags_Some [of 0 XRT_BODY_JOINT_COUNT_FB js] assms(15)
  obtain js' where js': "clear_location_flags XRT_BODY_JOINT_COUNT_FB 0 js = Some js'"
    "length js' = length js"
    "\<forall>k < length js. js' ! k =
       (if k < XRT_BODY_JOINT_COUNT_FB then (js ! k)\<lparr>locationFlags := 0\<rparr> else js ! k)"
    by auto
  have "oxr_xrLocateBodyJointsFB env w bodyTracker (Some li) (Some loc) =
          locate_body_joints_queried env w tr xdev li loc js spc"
    by (rule locate_body_joints_validated [OF assms(1-11)])
  also have "\<dots> = Returns XR_SUCCESS w
                   (Some (loc\<lparr>bjl_isActive := False, bjl_jointLocations := Some js'\<rparr>))"
    using assms(12-14) js'(1) by (simp add: locate_body_joints_queried_def Let_def)
  finally show ?thesis using js'(2,3) by blast
qed

text \<open>
  The full-body tracker at address 7, 84 joints with flags 1 in the caller's buffer:
  the call succeeds, the first 70 joints have flags 0, the last 14 still have flags 1.
\<close>

theorem locate_body_joints_inactive_clears_70_witness:
  "oxr_xrLocateBodyJointsFB (ex_body_env XR_SUCCESS) (ex_world (ex_system None) ex_objs) 7
     (Some ex_body_locate_info) (Some (ex_body_locations 84)) =
   Returns XR_SUCCESS (ex_world (ex_system None) ex_objs)
     (Some ((ex_body_locations 84)
        \<lparr>bjl_isActive := False,
         bjl_jointLocations := Some (replicate 70 (ex_joint 0) @ replicate 14 (ex_joint 1))\<rparr>))"
proof -
  let ?w = "ex_world (ex_system None) ex_objs"
  let ?tr = "ex_body_tracker 1 XRT_BODY_JOINT_SET_FULL_BODY_META"
  let ?js = "replicate 84 (ex_joint 1)"
  have "\<exists>js'. oxr_xrLocateBodyJointsFB (ex_body_env XR_SUCCESS) ?w 7
                 (Some ex_body_locate_info) (Some (ex_body_locations 84)) =
                 Returns XR_SUCCESS ?w
                   (Some ((ex_body_locations 84)
                      \<lparr>bjl_isActive := False, bjl_jointLocations := Some js'\<rparr>))
               \<and> length js' = length ?js
               \<and> (\<forall>k < length ?js. js' ! k =
                    (if k < XRT_BODY_JOINT_COUNT_FB then (?js ! k)\<lparr>locationFlags := 0\<rparr>
                     else ?js ! k))"
    by (rule locate_body_joints_inactive_clears_70
          [where tr = ?tr and sess = "ex_session False False" and xdev = ex_device
             and spc = 9 and joint_set = ex_inactive_joint_set and T = ex_relation])
       (simp_all add: ex_verify_trackers ex_deref_session ex_body_locate_info_def
          ex_body_locations_def ex_body_tracker_def ex_device_def ex_session_def
          ex_body_env_def ex_inactive_joint_set_def XRT_FULL_BODY_JOINT_COUNT_META_def
          XRT_BODY_JOINT_COUNT_FB_def)
  then obtain js' where r: "oxr_xrLocateBodyJointsFB (ex_body_env XR_SUCCESS) ?w 7
                 (Some ex_body_locate_info) (Some (ex_body_locations 84)) =
                 Returns XR_SUCCESS ?w
                   (Some ((ex_body_locations 84)
                      \<lparr>bjl_isActive := False, bjl_jointLocations := Some js'\<rparr>))"
    and len: "length js' = 84"
    and nth: "\<forall>k < 84. js' ! k = (if k < 70 then ex_joint 0 else ex_joint 1)"
    by (auto simp: XRT_BODY_JOINT_COUNT_FB_def ex_joint_def)
  have "js' = replicate 70 (ex_joint 0) @ replicate 14 (ex_joint 1)"
    using len nth by (intro nth_equalityI) (auto simp: nth_append)
  with r show ?thesis by simp
qed

text \<open>
  The facial-expression query with a device that reports a set that is not active:
  once its checks pass, the call writes \<^verbatim>\<open>isActive\<close> false and returns \<^verbatim>\<open>XR_SUCCESS\<close>.
\<close>

lemma get_facial_expressions_inactive:
  assumes "\<not> fes_is_active (g xdev
             (oxr_facial_tracking_type_htc_to_input_name (facial_tracking_type tr)))"
  shows "get_facial_expressions_queried g t w tr xdev fe ws =
           Returns XR_SUCCESS w (fe\<lparr>fe_isActive := False\<rparr>)"
  using assms by (simp add: get_facial_expressions_queried_def Let_def)

subsection \<open>Undersized output buffers\<close>

lemma locate_hand_joints_wrong_count:
  assumes "OXR_VERIFY_HAND_TRACKER w h = Inr tr"
    and "deref_session w (ht_sess tr) = Some sess" and "\<not> has_lost sess"
    and "ty li = XR_TYPE_HAND_JOINTS_LOCATE_INFO_EXT"
    and "ty loc = XR_TYPE_HAND_JOINT_LOCATIONS_EXT"
    and "hjl_jointLocations loc = Some js"
    and "OXR_VERIFY_SPACE_NOT_NULL w (hjli_baseSpace li) = Inr spc"
    and "0 < hjli_time li"
    and "hand_joint_set tr = XR_HAND_JOINT_SET_DEFAULT_EXT"
    and "hjl_jointCount loc \<noteq> XR_HAND_JOINT_COUNT_EXT"
  shows "oxr_xrLocateHandJointsEXT hand_joints w h (Some li) (Some loc) =
           Returns XR_ERROR_VALIDATION_FAILURE w (Some loc)"
  using assms
  by (simp add: oxr_xrLocateHandJointsEXT_def OXR_VERIFY_ARG_TYPE_AND_NOT_NULL_def
      OXR_VERIFY_ARG_NOT_NULL_def)

lemma locate_body_joints_small_count:
  assumes "OXR_VERIFY_BODY_TRACKER_FB w b = Inr tr"
    and "ty li = XR_TYPE_BODY_JOINTS_LOCATE_INFO_FB"
    and "ty loc = XR_TYPE_BODY_JOINT_LOCATIONS_FB"
    and "deref_session w (bt_sess tr) = Some sess" and "\<not> has_lost sess"
    and "bt_xdev tr = Some xdev" and "body_tracking_supported xdev"
    and "bjl_jointLocations loc = Some js"
    and "OXR_VERIFY_SPACE_NOT_NULL w (bjli_baseSpace li) = Inr spc"
    and "bjl_jointCount loc <
           (if joint_set_type tr = XRT_BODY_JOINT_SET_FULL_BODY_META
            then XRT_FULL_BODY_JOINT_COUNT_META else XRT_BODY_JOINT_COUNT_FB)"
  shows "oxr_xrLocateBodyJointsFB env w b (Some li) (Some loc) =
           Returns XR_ERROR_VALIDATION_FAILURE w (Some loc)"
  using assms
  by (simp add: oxr_xrLocateBodyJointsFB_def OXR_VERIFY_ARG_TYPE_AND_NOT_NULL_def
      del: if_split split del: if_split)

lemma get_body_skeleton_small_count:
  assumes "OXR_VERIFY_BODY_TRACKER_FB w b = Inr tr"
    and "deref_session w (bt_sess tr) = Some sess" and "\<not> has_lost sess"
    and "bt_xdev tr = Some xdev" and "body_tracking_supported xdev"
    and "ty sk = XR_TYPE_BODY_SKELETON_FB"
    and "sk_jointCount sk <
           (if joint_set_type tr = XRT_BODY_JOINT_SET_FULL_BODY_META
            then XRT_FULL_BODY_JOINT_COUNT_META else XRT_BODY_JOINT_COUNT_FB)"
  shows "oxr_xrGetBodySkeletonFB get_skeleton w b (Some sk) =
           Returns XR_ERROR_VALIDATION_FAILURE w (Some sk)"
  using assms
  by (simp add: oxr_xrGetBodySkeletonFB_def OXR_VERIFY_ARG_TYPE_AND_NOT_NULL_def Let_def
      del: if_split split del: if_split)

text \<open>
  C8 (amended). A hand-joint, body-joint or body-skeleton query that passes the checks
  made before the check of the output capacity fails on an undersized buffer with
  \<^verbatim>\<open>XR_ERROR_VALIDATION_FAILURE\<close> and writes nothing: for hand joints (default joint
  set) on every joint count other than \<^verbatim>\<open>XR_HAND_JOINT_COUNT_EXT\<close>, for body joints and
  for the body skeleton on a joint count below the count of the tracker's variant.
\<close>

theorem undersized_tracker_buffer:
  "(OXR_VERIFY_HAND_TRACKER w h = Inr htr \<and> deref_session w (ht_sess htr) = Some hsess \<and>
    \<not> has_lost hsess \<and> ty hli = XR_TYPE_HAND_JOINTS_LOCATE_INFO_EXT \<and>
    ty hloc = XR_TYPE_HAND_JOINT_LOCATIONS_EXT \<and> hjl_jointLocations hloc = Some hjs \<and>
    OXR_VERIFY_SPACE_NOT_NULL w (hjli_baseSpace hli) = Inr hspc \<and> 0 < hjli_time hli \<and>
    hand_joint_set htr = XR_HAND_JOINT_SET_DEFAULT_EXT \<and>
    hjl_jointCount hloc \<noteq> XR_HAND_JOINT_COUNT_EXT
    \<longrightarrow> oxr_xrLocateHandJointsEXT hand_joints w h (Some hli) (Some hloc) =
          Returns XR_ERROR_VALIDATION_FAILURE w (Some hloc))
   \<and> (OXR_VERIFY_BODY_TRACKER_FB w b = Inr btr \<and> ty bli = XR_TYPE_BODY_JOINTS_LOCATE_INFO_FB \<and>
      ty bloc = XR_TYPE_BODY_JOINT_LOCATIONS_FB \<and> deref_session w (bt_sess btr) = Some bsess \<and>
      \<not> has_lost bsess \<and> bt_xdev btr = Some bdev \<and> body_tracking_supported bdev \<and>
      bjl_jointLocations bloc = Some bjs \<and>
      OXR_VERIFY_SPACE_NOT_NULL w (bjli_baseSpace bli) = Inr bspc \<and>
      bjl_jointCount bloc <
        (if joint_set_type btr = XRT_BODY_JOINT_SET_FULL_BODY_META
         then XRT_FULL_BODY_JOINT_COUNT_META else XRT_BODY_JOINT_COUNT_FB)
      \<longrightarrow> oxr_xrLocateBodyJointsFB env w b (Some bli) (Some bloc) =
            Returns XR_ERROR_VALIDATION_FAILURE w (Some bloc))
   \<and> (OXR_VERIFY_BODY_TRACKER_FB w b = Inr btr \<and> deref_session w (bt_sess btr) = Some bsess \<and>
      \<not> has_lost bsess \<and> bt_xdev btr = Some bdev \<and> body_tracking_supported bdev \<and>
      ty sk = XR_TYPE_BODY_SKELETON_FB \<and>
      sk_jointCount sk <
        (if joint_set_type btr = XRT_BODY_JOINT_SET_FULL_BODY_META
         then XRT_FULL_BODY_JOINT_COUNT_META else XRT_BODY_JOINT_COUNT_FB)
      \<longrightarrow> oxr_xrGetBodySkeletonFB get_skeleton w b (Some sk) =
            Returns XR_ERROR_VALIDATION_FAILURE w (Some sk))"
proof (intro conjI impI)
  assume "OXR_VERIFY_HAND_TRACKER w h = Inr htr \<and> deref_session w (ht_sess htr) = Some hsess \<and>
    \<not> has_lost hsess \<and> ty hli = XR_TYPE_HAND_JOINTS_LOCATE_INFO_EXT \<and>
    ty hloc = XR_TYPE_HAND_JOINT_LOCATIONS_EXT \<and> hjl_jointLocations hloc = Some hjs \<and>
    OXR_VERIFY_SPACE_NOT_NULL w (hjli_baseSpace hli) = Inr hspc \<and> 0 < hjli_time hli \<and>
    hand_joint_set htr = XR_HAND_JOINT_SET_DEFAULT_EXT \<and>
    hjl_jointCount hloc \<noteq> XR_HAND_JOINT_COUNT_EXT"
  then show "oxr_xrLocateHandJointsEXT hand_joints w h (Some hli) (Some hloc) =
          Returns XR_ERROR_VALIDATION_FAILURE w (Some hloc)"
    by (intro locate_hand_joints_wrong_count [where tr = htr and sess = hsess]) simp_all
next
  assume "OXR_VERIFY_BODY_TRACKER_FB w b = Inr btr \<and> ty bli = XR_TYPE_BODY_JOINTS_LOCATE_INFO_FB \<and>
      ty bloc = XR_TYPE_BODY_JOINT_LOCATIONS_FB \<and> deref_session w (bt_sess btr) = Some bsess \<and>
      \<not> has_lost bsess \<and> bt_xdev btr = Some bdev \<and> body_tracking_supported bdev \<and>
      bjl_jointLocations bloc = Some bjs \<and>
      OXR_VERIFY_SPACE_NOT_NULL w (bjli_baseSpace bli) = Inr bspc \<and>
      bjl_jointCount bloc <
        (if joint_set_type btr = XRT_BODY_JOINT_SET_FULL_BODY_META
         then XRT_FULL_BODY_JOINT_COUNT_META else XRT_BODY_JOINT_COUNT_FB)"
  then show "oxr_xrLocateBodyJointsFB env w b (Some bli) (Some bloc) =
            Returns XR_ERROR_VALIDATION_FAILURE w (Some bloc)"
    by (intro locate_body_joints_small_count
          [where tr = btr and sess = bsess and xdev = bdev]) simp_all
next
  assume "OXR_VERIFY_BODY_TRACKER_FB w b = Inr btr \<and> deref_session w (bt_sess btr) = Some bsess \<and>
      \<not> has_lost bsess \<and> bt_xdev btr = Some bdev \<and> body_tracking_supported bdev \<and>
      ty sk = XR_TYPE_BODY_SKELETON_FB \<and>
      sk_jointCount sk <
        (if joint_set_type btr = XRT_BODY_JOINT_SET_FULL_BODY_META
         then XRT_FULL_BODY_JOINT_COUNT_META else XRT_BODY_JOINT_COUNT_FB)"
  then show "oxr_xrGetBodySkeletonFB get_skeleton w b (Some sk) =
            Returns XR_ERROR_VALIDATION_FAILURE w (Some sk)"
    by (intro get_body_skeleton_small_count
          [where tr = btr and sess = bsess and xdev = bdev]) simp_all
qed

text \<open>
  The hand tracker at address 4 with room for 25 joints, and the full-body tracker at
  address 7 with a skeleton of 83 joints.
\<close>

theorem undersized_tracker_buffer_witness:
  "oxr_xrLocateHandJointsEXT (\<lambda>w h li loc. Returns XR_SUCCESS w loc)
     (ex_world (ex_system None) ex_objs) 4 (Some ex_hand_locate_info)
     (Some (ex_hand_locations 25)) =
   Returns XR_ERROR_VALIDATION_FAILURE (ex_world (ex_system None) ex_objs)
     (Some (ex_hand_locations 25))
   \<and> oxr_xrGetBodySkeletonFB (\<lambda>d n. None) (ex_world (ex_system None) ex_objs) 7
       (Some \<lparr>ty = XR_TYPE_BODY_SKELETON_FB, sk_jointCount = 83, sk_joints = None\<rparr>) =
     Returns XR_ERROR_VALIDATION_FAILURE (ex_world (ex_system None) ex_objs)
       (Some \<lparr>ty = XR_TYPE_BODY_SKELETON_FB, sk_jointCount = 83, sk_joints = None\<rparr>)"
proof -
  let ?w = "ex_world (ex_system None) ex_objs"
  let ?sk = "\<lparr>ty = XR_TYPE_BODY_SKELETON_FB, sk_jointCount = 83, sk_joints = None\<rparr>"
  note u = undersized_tracker_buffer
    [where w = ?w and h = 4 and htr = "ex_hand_tracker 1" and hsess = "ex_session False False"
       and hli = ex_hand_locate_info and hloc = "ex_hand_locations 25"
       and hjs = "replicate 25 (ex_joint 1)" and hspc = 9
       and hand_joints = "\<lambda>w h li loc. Returns XR_SUCCESS w loc"
       and b = 7 and btr = "ex_body_tracker 1 XRT_BODY_JOINT_SET_FULL_BODY_META"
       and bsess = "ex_session False False" and bdev = ex_device and sk = ?sk
       and get_skeleton = "\<lambda>d n. None"]
  have a: "oxr_xrLocateHandJointsEXT (\<lambda>w h li loc. Returns XR_SUCCESS w loc) ?w 4
             (Some ex_hand_locate_info) (Some (ex_hand_locations 25)) =
           Returns XR_ERROR_VALIDATION_FAILURE ?w (Some (ex_hand_locations 25))"
    by (rule u [THEN conjunct1, THEN mp])
       (simp add: ex_verify_trackers ex_deref_session ex_hand_tracker_def ex_session_def
          ex_hand_locate_info_def ex_hand_locations_def XR_HAND_JOINT_COUNT_EXT_def)
  have b: "oxr_xrGetBodySkeletonFB (\<lambda>d n. None) ?w 7 (Some ?sk) =
           Returns XR_ERROR_VALIDATION_FAILURE ?w (Some ?sk)"
    by (rule u [THEN conjunct2, THEN conjunct2, THEN mp])
       (simp add: ex_verify_trackers ex_deref_session ex_body_tracker_def ex_session_def
          ex_device_def XRT_FULL_BODY_JOINT_COUNT_META_def)
  from a b show ?thesis by (rule conjI)
qed

text \<open>
  The claim's result code fails for the body tracker: the full-body tracker at address
  7 with room for 83 joints returns \<^verbatim>\<open>XR_ERROR_VALIDATION_FAILURE\<close>, not
  \<^verbatim>\<open>XR_ERROR_SIZE_INSUFFICIENT\<close>.
\<close>

theorem undersized_body_buffer_counterexample:
  "oxr_xrLocateBodyJointsFB (ex_body_env XR_SUCCESS) (ex_world (ex_system None) ex_objs) 7
     (Some ex_body_locate_info) (Some (ex_body_locations 83)) =
   Returns XR_ERROR_VALIDATION_FAILURE (ex_world (ex_system None) ex_objs)
     (Some (ex_body_locations 83))"
  by (rule locate_body_joints_small_count
        [where tr = "ex_body_tracker 1 XRT_BODY_JOINT_SET_FULL_BODY_META"
           and sess = "ex_session False False" and xdev = ex_device and spc = 9
           and js = "replicate 83 (ex_joint 1)"])
     (simp_all add: ex_verify_trackers ex_deref_session ex_body_locate_info_def
        ex_body_locations_def ex_body_tracker_def ex_device_def ex_session_def
        XRT_FULL_BODY_JOINT_COUNT_META_def)

subsection \<open>Hand-tracker creation\<close>

text \<open>
  C2 (amended). A hand-tracker creation call on a live session that is not lost, with
  the extension enabled, a well-formed create info and a valid hand, fails with
  \<^verbatim>\<open>XR_ERROR_FEATURE_UNSUPPORTED\<close> and creates nothing when
  \<^verbatim>\<open>oxr_system_get_hand_tracking_support\<close> answers no. When it answers yes the outcome
  does not depend on the device of the role: the call fails with the allocator's
  error, creating nothing, when no handle can be allocated, and otherwise returns
  \<^verbatim>\<open>XR_SUCCESS\<close> with a new live tracker of the session, whose device reference is
  \<^verbatim>\<open>NULL\<close> when no device is bound to the role of the hand or the bound device does not
  report hand-tracking support.
\<close>

theorem create_hand_tracker_outcome:
  assumes "OXR_VERIFY_SESSION w session = Inr sess" and "\<not> has_lost sess"
    and "ty ci = XR_TYPE_HAND_TRACKER_CREATE_INFO_EXT"
    and "htci_hand ci = XR_HAND_LEFT_EXT \<or> htci_hand ci = XR_HAND_RIGHT_EXT"
    and "EXT_hand_tracking (extensions (inst w))"
  shows "(\<not> support (inst w) \<longrightarrow>
            oxr_xrCreateHandTrackerEXT support w session (Some ci) (Some out) =
              Returns XR_ERROR_FEATURE_UNSUPPORTED w (Some out))
       \<and> (support (inst w) \<and> avail w = [] \<longrightarrow>
            oxr_xrCreateHandTrackerEXT support w session (Some ci) (Some out) =
              Returns XR_ERROR_OUT_OF_MEMORY w (Some out))
       \<and> (\<forall>a rest. support (inst w) \<and> avail w = a # rest \<longrightarrow>
            (\<exists>ht. oxr_xrCreateHandTrackerEXT support w session (Some ci) (Some out) =
                    Returns XR_SUCCESS (store_handle w a (HandTracker ht)) (Some a)
                  \<and> ht_handle_state ht = OXR_HANDLE_STATE_LIVE \<and> ht_sess ht = session
                  \<and> hand ht = htci_hand ci
                  \<and> ((case (if htci_hand ci = XR_HAND_LEFT_EXT
                             then hand_tracking_left (system (inst w))
                             else hand_tracking_right (system (inst w))) of
                        None \<Rightarrow> True
                      | Some d \<Rightarrow> \<not> hand_tracking_supported d)
                     \<longrightarrow> ht_xdev ht = None)))"
proof (intro conjI allI impI)
  assume "\<not> support (inst w)"
  with assms show "oxr_xrCreateHandTrackerEXT support w session (Some ci) (Some out) =
              Returns XR_ERROR_FEATURE_UNSUPPORTED w (Some out)"
    by (auto simp: oxr_xrCreateHandTrackerEXT_def oxr_hand_tracker_create_def
        OXR_VERIFY_ARG_TYPE_AND_NOT_NULL_def OXR_VERIFY_ARG_NOT_NULL_def
        OXR_VERIFY_EXTENSION_def)
next
  assume "support (inst w) \<and> avail w = []"
  with assms show "oxr_xrCreateHandTrackerEXT support w session (Some ci) (Some out) =
              Returns XR_ERROR_OUT_OF_MEMORY w (Some out)"
    by (auto simp: oxr_xrCreateHandTrackerEXT_def oxr_hand_tracker_create_def
        OXR_VERIFY_ARG_TYPE_AND_NOT_NULL_def OXR_VERIFY_ARG_NOT_NULL_def
        OXR_VERIFY_EXTENSION_def OXR_ALLOCATE_HANDLE_OR_RETURN_def)
next
  fix a rest
  assume s: "support (inst w) \<and> avail w = a # rest"
  let ?xdev = "if htci_hand ci = XR_HAND_LEFT_EXT then hand_tracking_left (system (inst w))
               else hand_tracking_right (system (inst w))"
  let ?found = "case ?xdev of None \<Rightarrow> None
                | Some d \<Rightarrow> if hand_tracking_supported d
                            then find_hand_tracking_input (htci_hand ci) (inputs d) else None"
  let ?ht = "\<lparr>ht_handle_state = OXR_HANDLE_STATE_LIVE, ht_sess = session,
              hand = htci_hand ci, hand_joint_set = handJointSet ci,
              ht_xdev = (case ?found of None \<Rightarrow> None | Some _ \<Rightarrow> ?xdev),
              input_name = ?found\<rparr>"
  have "oxr_xrCreateHandTrackerEXT support w session (Some ci) (Some out) =
          Returns XR_SUCCESS (store_handle w a (HandTracker ?ht)) (Some a)"
    using assms s
    by (auto simp: oxr_xrCreateHandTrackerEXT_def oxr_hand_tracker_create_def Let_def
        OXR_VERIFY_ARG_TYPE_AND_NOT_NULL_def OXR_VERIFY_ARG_NOT_NULL_def
        OXR_VERIFY_EXTENSION_def OXR_ALLOCATE_HANDLE_OR_RETURN_def)
  moreover have "(case ?xdev of None \<Rightarrow> True | Some d \<Rightarrow> \<not> hand_tracking_supported d)
                 \<longrightarrow> ht_xdev ?ht = None"
    by (auto split: option.splits)
  ultimately show "\<exists>ht. oxr_xrCreateHandTrackerEXT support w session (Some ci) (Some out) =
                    Returns XR_SUCCESS (store_handle w a (HandTracker ht)) (Some a)
                  \<and> ht_handle_state ht = OXR_HANDLE_STATE_LIVE \<and> ht_sess ht = session
                  \<and> hand ht = htci_hand ci
                  \<and> ((case ?xdev of None \<Rightarrow> True | Some d \<Rightarrow> \<not> hand_tracking_supported d)
                     \<longrightarrow> ht_xdev ht = None)"
    by (intro exI [of _ ?ht]) simp
qed

text \<open>
  On a system with no device for either hand and no hand-tracking support, creating a
  left-hand tracker on the session at address 1 fails and creates nothing.
\<close>

theorem create_hand_tracker_outcome_witness:
  "oxr_xrCreateHandTrackerEXT ex_either_hand_supported (ex_world (ex_system None) ex_objs) 1
     (Some (ex_hand_create_info XR_HAND_LEFT_EXT)) (Some 0) =
   Returns XR_ERROR_FEATURE_UNSUPPORTED (ex_world (ex_system None) ex_objs) (Some 0)"
proof -
  have lost: "\<not> has_lost (ex_session False False)"
    by (simp add: ex_session_def)
  have ci: "ty (ex_hand_create_info XR_HAND_LEFT_EXT) = XR_TYPE_HAND_TRACKER_CREATE_INFO_EXT"
    "htci_hand (ex_hand_create_info XR_HAND_LEFT_EXT) = XR_HAND_LEFT_EXT \<or>
     htci_hand (ex_hand_create_info XR_HAND_LEFT_EXT) = XR_HAND_RIGHT_EXT"
    by (simp_all add: ex_hand_create_info_def)
  have ext: "EXT_hand_tracking (extensions (inst (ex_world (ex_system None) ex_objs)))"
    by (simp add: ex_world_def ex_extensions_def)
  have no: "\<not> ex_either_hand_supported (inst (ex_world (ex_system None) ex_objs))"
    by (simp add: ex_either_hand_supported_def ex_world_def ex_system_def)
  from create_hand_tracker_outcome [OF ex_verify_session_1 lost ci ext, THEN conjunct1] no
  show ?thesis by blast
qed

text \<open>
  The claim fails where the system supports hand tracking through the other hand: the
  left-hand role has a device, the right-hand role has none, and creating a right-hand
  tracker returns \<^verbatim>\<open>XR_SUCCESS\<close> and creates a tracker (at address 10) with no device.
\<close>

theorem create_hand_tracker_unbound_role_counterexample:
  "oxr_xrCreateHandTrackerEXT ex_either_hand_supported (ex_world ex_system_left_hand ex_objs) 1
     (Some (ex_hand_create_info XR_HAND_RIGHT_EXT)) (Some 0) =
   Returns XR_SUCCESS
     (store_handle (ex_world ex_system_left_hand ex_objs) 10
        (HandTracker \<lparr>ht_handle_state = OXR_HANDLE_STATE_LIVE, ht_sess = 1,
                      hand = XR_HAND_RIGHT_EXT, hand_joint_set = XR_HAND_JOINT_SET_DEFAULT_EXT,
                      ht_xdev = None, input_name = None\<rparr>))
     (Some 10)"
proof -
  have sup: "ex_either_hand_supported (inst (ex_world ex_system_left_hand ex_objs))"
    by (simp add: ex_either_hand_supported_def ex_world_def ex_system_left_hand_def
        ex_system_def ex_device_def)
  have sys: "hand_tracking_right (system (inst (ex_world ex_system_left_hand ex_objs))) = None"
    "avail (ex_world ex_system_left_hand ex_objs) = [10, 11]"
    "EXT_hand_tracking (extensions (inst (ex_world ex_system_left_hand ex_objs)))"
    by (simp_all add: ex_world_def ex_system_left_hand_def ex_system_def ex_extensions_def)
  show ?thesis
    using sup sys
    by (simp add: oxr_xrCreateHandTrackerEXT_def oxr_hand_tracker_create_def Let_def
        ex_verify_session_Suc_0 ex_session_def ex_hand_create_info_def
        OXR_VERIFY_ARG_TYPE_AND_NOT_NULL_def OXR_VERIFY_ARG_NOT_NULL_def
        OXR_VERIFY_EXTENSION_def OXR_ALLOCATE_HANDLE_OR_RETURN_def)
qed

subsection \<open>Beginning a session twice\<close>

lemma verify_session_deref:
  "OXR_VERIFY_SESSION w s = Inr ss \<Longrightarrow> deref_session w s = Some ss"
  by (auto simp: OXR_VERIFY_SESSION_def deref_session_def
      split: if_splits option.splits oxr_object.splits)

lemma begin_session_success:
  assumes "oxr_xrBeginSession vct begin w session bi = Returns XR_SUCCESS w1 ()"
  shows "begin w session bi = Returns XR_SUCCESS w1 ()"
proof -
  have "OXR_VERIFY_SESSION w session \<noteq> Inl XR_ERROR_HANDLE_INVALID"
    using assms by (auto simp: oxr_xrBeginSession_def)
  then obtain sess where sess: "OXR_VERIFY_SESSION w session = Inr sess"
    using verify_session_Inl [of w session] by (cases "OXR_VERIFY_SESSION w session") auto
  show ?thesis
    using assms sess
    by (auto simp: oxr_xrBeginSession_def OXR_VERIFY_ARG_TYPE_AND_NOT_NULL_def
        split: if_splits option.splits)
qed

text \<open>
  C6. When a \<^verbatim>\<open>BeginSession\<close> call has returned \<^verbatim>\<open>XR_SUCCESS\<close>, a second call on the
  session (still live and not lost) with a begin info of the right tag and a view
  configuration type that \<^verbatim>\<open>oxr_verify_view_config_type\<close> accepts returns
  \<^verbatim>\<open>XR_ERROR_SESSION_RUNNING\<close> and leaves the runtime state as the first call left it.
  \<^verbatim>\<open>oxr_session_begin\<close> is a parameter, of which the theorem asks what the
  specification says of it: where it returns \<^verbatim>\<open>XR_SUCCESS\<close> it has set \<^verbatim>\<open>has_begun\<close>.
\<close>

theorem begin_session_twice:
  assumes "oxr_xrBeginSession vct begin w session bi = Returns XR_SUCCESS w1 ()"
    and "\<forall>w s b w'. begin w s b = Returns XR_SUCCESS w' () \<longrightarrow>
           (\<exists>ss. deref_session w' s = Some ss \<and> has_begun ss)"
    and "OXR_VERIFY_SESSION w1 session = Inr sess1" and "\<not> has_lost sess1"
    and "ty bi' = XR_TYPE_SESSION_BEGIN_INFO"
    and "vct (inst w1) (primaryViewConfigurationType bi') = XR_SUCCESS"
  shows "oxr_xrBeginSession vct begin w1 session (Some bi') =
           Returns XR_ERROR_SESSION_RUNNING w1 ()"
proof -
  have "begin w session bi = Returns XR_SUCCESS w1 ()"
    by (rule begin_session_success [OF assms(1)])
  with assms(2) obtain ss where "deref_session w1 session = Some ss" "has_begun ss"
    by blast
  with verify_session_deref [OF assms(3)] have "has_begun sess1"
    by simp
  with assms(3-6) show ?thesis
    by (simp add: oxr_xrBeginSession_def OXR_VERIFY_ARG_TYPE_AND_NOT_NULL_def)
qed

lemma oxr_session_begin_sets_has_begun:
  "\<forall>w s b w'. oxr_session_begin w s b = Returns XR_SUCCESS w' () \<longrightarrow>
     (\<exists>ss. deref_session w' s = Some ss \<and> has_begun ss)"
  by (auto simp: oxr_session_begin_def deref_session_def
      split: option.splits oxr_object.splits if_splits)

text \<open>
  The session at address 1, begun once with \<^verbatim>\<open>oxr_session_begin\<close> as the
  specification describes it, refuses the second call and stays as it was.
\<close>

theorem begin_session_twice_witness:
  "oxr_xrBeginSession (\<lambda>i t. XR_SUCCESS) oxr_session_begin
     ((ex_world (ex_system None) ex_objs)
        \<lparr>objs := ex_objs(1 \<mapsto> Session (ex_session True False))\<rparr>) 1 (Some ex_begin_info) =
   Returns XR_ERROR_SESSION_RUNNING
     ((ex_world (ex_system None) ex_objs)
        \<lparr>objs := ex_objs(1 \<mapsto> Session (ex_session True False))\<rparr>) ()"
proof -
  let ?w = "ex_world (ex_system None) ex_objs"
  let ?w1 = "?w\<lparr>objs := ex_objs(1 \<mapsto> Session (ex_session True False))\<rparr>"
  have o: "objs ?w = ex_objs" "ex_objs 1 = Some (Session (ex_session False False))"
    "view_config_type (system (inst ?w)) = XR_VIEW_CONFIGURATION_TYPE_PRIMARY_STEREO"
    "(ex_session False False)\<lparr>has_begun := True\<rparr> = ex_session True False"
    "\<not> has_lost (ex_session False False)" "\<not> has_begun (ex_session False False)"
    by (simp_all add: ex_world_def ex_objs_def ex_system_def ex_session_def)
  have first: "oxr_xrBeginSession (\<lambda>i t. XR_SUCCESS) oxr_session_begin ?w 1 (Some ex_begin_info) =
                 Returns XR_SUCCESS ?w1 ()"
    by (simp add: oxr_xrBeginSession_def ex_verify_session_1 o
        OXR_VERIFY_ARG_TYPE_AND_NOT_NULL_def ex_begin_info_def oxr_session_begin_def
        del: One_nat_def)
  have v: "OXR_VERIFY_SESSION ?w1 1 = Inr (ex_session True False)"
    by (simp add: OXR_VERIFY_SESSION_def ex_session_def)
  have lost: "\<not> has_lost (ex_session True False)"
    by (simp add: ex_session_def)
  have b: "ty ex_begin_info = XR_TYPE_SESSION_BEGIN_INFO"
    by (simp add: ex_begin_info_def)
  show ?thesis
    by (rule begin_session_twice [OF first oxr_session_begin_sets_has_begun v lost b]) simp
qed

subsection \<open>Calls that fail a check\<close>






































subsection \<open>Calls on a lost session\<close>

lemma lost_begin_session:
  assumes "OXR_VERIFY_SESSION w session = Inr sess" and "has_lost sess"
  shows "oxr_xrBeginSession vct begin_op w session beginInfo = Returns XR_ERROR_SESSION_LOST w ()"
  using assms by (simp add: oxr_xrBeginSession_def)

lemma lost_end_session:
  assumes "OXR_VERIFY_SESSION w session = Inr sess" and "has_lost sess"
  shows "oxr_xrEndSession end_op w session = Returns XR_ERROR_SESSION_LOST w ()"
  using assms by (simp add: oxr_xrEndSession_def)

lemma lost_wait_frame:
  assumes "OXR_VERIFY_SESSION w session = Inr sess" and "has_lost sess"
  shows "oxr_xrWaitFrame wait_op w session frameWaitInfo frameState =
      Returns XR_ERROR_SESSION_LOST w frameState"
  using assms by (simp add: oxr_xrWaitFrame_def)

lemma lost_begin_frame:
  assumes "OXR_VERIFY_SESSION w session = Inr sess" and "has_lost sess"
  shows "oxr_xrBeginFrame frame_begin_op w session frameBeginInfo =
      Returns XR_ERROR_SESSION_LOST w ()"
  using assms by (simp add: oxr_xrBeginFrame_def)

lemma lost_end_frame:
  assumes "OXR_VERIFY_SESSION w session = Inr sess" and "has_lost sess"
  shows "oxr_xrEndFrame frame_end_op w session frameEndInfo = Returns XR_ERROR_SESSION_LOST w ()"
  using assms by (simp add: oxr_xrEndFrame_def)

lemma lost_request_exit:
  assumes "OXR_VERIFY_SESSION w session = Inr sess" and "has_lost sess"
  shows "oxr_xrRequestExitSession exit_op w session = Returns XR_ERROR_SESSION_LOST w ()"
  using assms by (simp add: oxr_xrRequestExitSession_def)

lemma lost_locate_views:
  assumes "OXR_VERIFY_SESSION w session = Inr sess" and "has_lost sess"
  shows "oxr_xrLocateViews vct views_op w session viewLocateInfo cap views_out =
      Returns XR_ERROR_SESSION_LOST w views_out"
  using assms by (simp add: oxr_xrLocateViews_def)

lemma lost_perf_level:
  assumes "OXR_VERIFY_SESSION w session = Inr sess" and "has_lost sess"
  shows "oxr_xrPerfSettingsSetPerformanceLevelEXT perf_op w session domain level =
      Returns XR_ERROR_SESSION_LOST w ()"
  using assms by (simp add: oxr_xrPerfSettingsSetPerformanceLevelEXT_def)

lemma lost_thermal:
  assumes "OXR_VERIFY_SESSION w session = Inr sess" and "has_lost sess"
  shows "oxr_xrThermalGetTemperatureTrendEXT w session = Returns XR_ERROR_SESSION_LOST w ()"
  using assms by (simp add: oxr_xrThermalGetTemperatureTrendEXT_def)

lemma lost_android_thread:
  assumes "OXR_VERIFY_SESSION w session = Inr sess" and "has_lost sess"
  shows "oxr_xrSetAndroidApplicationThreadKHR thread_op w session threadType threadId =
      Returns XR_ERROR_SESSION_LOST w ()"
  using assms by (simp add: oxr_xrSetAndroidApplicationThreadKHR_def)

lemma lost_create_hand_tracker:
  assumes "OXR_VERIFY_SESSION w session = Inr sess" and "has_lost sess"
  shows "oxr_xrCreateHandTrackerEXT hand_support w session hand_ci hand_out =
      Returns XR_ERROR_SESSION_LOST w hand_out"
  using assms by (simp add: oxr_xrCreateHandTrackerEXT_def)

lemma lost_create_facial_tracker:
  assumes "OXR_VERIFY_SESSION w session = Inr sess" and "has_lost sess"
  shows "oxr_xrCreateFacialTrackerHTC face_support w session face_ci face_out =
      Returns XR_ERROR_SESSION_LOST w face_out"
  using assms by (simp add: oxr_xrCreateFacialTrackerHTC_def)

lemma lost_create_body_tracker:
  assumes "OXR_VERIFY_SESSION w session = Inr sess" and "has_lost sess"
  shows "oxr_xrCreateBodyTrackerFB body_support full_body_support w session body_ci body_out =
      Returns XR_ERROR_SESSION_LOST w body_out"
  using assms by (simp add: oxr_xrCreateBodyTrackerFB_def)

lemma lost_enumerate_rates:
  assumes "OXR_VERIFY_SESSION w session = Inr sess" and "has_lost sess"
  shows "oxr_xrEnumerateDisplayRefreshRatesFB two_call w session rate_cap rate_count rates =
      Returns XR_ERROR_SESSION_LOST w (rate_count, rates)"
  using assms by (simp add: oxr_xrEnumerateDisplayRefreshRatesFB_def)

lemma lost_get_rate:
  assumes "OXR_VERIFY_SESSION w session = Inr sess" and "has_lost sess"
  shows "oxr_xrGetDisplayRefreshRateFB get_rate_op w session rate_out =
      Returns XR_ERROR_SESSION_LOST w rate_out"
  using assms by (simp add: oxr_xrGetDisplayRefreshRateFB_def)

lemma lost_request_rate:
  assumes "OXR_VERIFY_SESSION w session = Inr sess" and "has_lost sess"
  shows "oxr_xrRequestDisplayRefreshRateFB request_rate_op w session rate =
      Returns XR_ERROR_SESSION_LOST w ()"
  using assms by (simp add: oxr_xrRequestDisplayRefreshRateFB_def)

lemma lost_visibility_mask:
  assumes "OXR_VERIFY_SESSION w session = Inr sess" and "has_lost sess"
  shows "oxr_xrGetVisibilityMaskKHR vct view_index_in_range mask_op w session maskViewType viewIndex maskType vmask =
      Returns XR_ERROR_SESSION_LOST w vmask"
  using assms by (simp add: oxr_xrGetVisibilityMaskKHR_def)

lemma lost_locate_hand_joints:
  assumes "OXR_VERIFY_SESSION w session = Inr sess" and "has_lost sess"
  shows "(OXR_VERIFY_HAND_TRACKER w handTracker = Inr htr \<and> ht_sess htr = session
      \<longrightarrow> oxr_xrLocateHandJointsEXT hand_joints_op w handTracker hand_li hand_loc =
          Returns XR_ERROR_SESSION_LOST w hand_loc)"
  using assms verify_session_deref [OF assms(1)]
  by (auto simp: oxr_xrLocateHandJointsEXT_def OXR_VERIFY_ARG_TYPE_AND_NOT_NULL_def)

lemma lost_get_body_skeleton:
  assumes "OXR_VERIFY_SESSION w session = Inr sess" and "has_lost sess"
  shows "(OXR_VERIFY_BODY_TRACKER_FB w bodyTracker = Inr btr \<and> bt_sess btr = session
      \<longrightarrow> oxr_xrGetBodySkeletonFB skeleton_query w bodyTracker skeleton =
          Returns XR_ERROR_SESSION_LOST w skeleton)"
  using assms verify_session_deref [OF assms(1)]
  by (auto simp: oxr_xrGetBodySkeletonFB_def OXR_VERIFY_ARG_TYPE_AND_NOT_NULL_def)

lemma lost_request_fidelity:
  assumes "OXR_VERIFY_SESSION w session = Inr sess" and "has_lost sess"
  shows "(OXR_VERIFY_BODY_TRACKER_FB w bodyTracker = Inr btr \<and> bt_sess btr = session
      \<longrightarrow> oxr_xrRequestBodyTrackingFidelityMETA fidelity_op w bodyTracker fidelity_level =
          Returns XR_ERROR_SESSION_LOST w ())"
  using assms verify_session_deref [OF assms(1)]
  by (auto simp: oxr_xrRequestBodyTrackingFidelityMETA_def OXR_VERIFY_ARG_TYPE_AND_NOT_NULL_def)

lemma lost_destroy_session:
  assumes "OXR_VERIFY_SESSION w session = Inr sess"
  shows "(session \<in> set (sessions (inst w)) \<and>
      destroy_op (w\<lparr>inst := (inst w)\<lparr>sessions := remove1 session (sessions (inst w))\<rparr>\<rparr>) session =
          Returns XR_SUCCESS w1 ()
      \<longrightarrow> oxr_xrDestroySession destroy_op w session = Returns XR_SUCCESS w1 ())"
  using assms by (simp add: oxr_xrDestroySession_def)

lemma lost_destroy_hand_tracker:
  "(OXR_VERIFY_HAND_TRACKER w handTracker = Inr htr \<and> ht_sess htr = session \<and>
      destroy_op w handTracker = Returns XR_SUCCESS w2 ()
      \<longrightarrow> oxr_xrDestroyHandTrackerEXT destroy_op w handTracker =
          Returns XR_SUCCESS w2 ())"
  by (simp add: oxr_xrDestroyHandTrackerEXT_def)

lemma lost_destroy_facial_tracker:
  "(OXR_VERIFY_FACE_TRACKER_HTC w facialTracker = Inr ftr \<and> ft_sess ftr = session \<and>
      destroy_op w facialTracker = Returns XR_SUCCESS w3 ()
      \<longrightarrow> oxr_xrDestroyFacialTrackerHTC destroy_op w facialTracker =
          Returns XR_SUCCESS w3 ())"
  by (simp add: oxr_xrDestroyFacialTrackerHTC_def)

lemma lost_destroy_body_tracker:
  "(OXR_VERIFY_BODY_TRACKER_FB w bodyTracker = Inr btr \<and> bt_sess btr = session \<and>
      destroy_op w bodyTracker = Returns XR_SUCCESS w4 ()
      \<longrightarrow> oxr_xrDestroyBodyTrackerFB destroy_op w bodyTracker =
          Returns XR_SUCCESS w4 ())"
  by (simp add: oxr_xrDestroyBodyTrackerFB_def)

text \<open>
  C1 (amended). Once a session is lost, every entrypoint call on the session other
  than its destroy call returns \<^verbatim>\<open>XR_ERROR_SESSION_LOST\<close> and changes nothing, whatever
  its other arguments are: begin, end, the frame calls, request exit, locate views,
  performance level, thermal trend, Android thread, the three tracker creation calls,
  the three refresh-rate calls and the visibility mask. So do the hand-joint,
  body-skeleton and body-tracking-fidelity calls on a live tracker of the session. The
  destroy calls are the exception, that of the session and those of its hand, facial
  and body trackers: none checks for loss, and each succeeds when
  \<^verbatim>\<open>oxr_handle_destroy\<close> (\<open>destroy_op\<close>) does, the session destroy after it has unlinked
  the session from the instance's list, in which a live session is found.
\<close>

theorem lost_session_calls:
  assumes "OXR_VERIFY_SESSION w session = Inr sess" and "has_lost sess"
  shows "oxr_xrBeginSession vct begin_op w session beginInfo = Returns XR_ERROR_SESSION_LOST w ()
   \<and> oxr_xrEndSession end_op w session = Returns XR_ERROR_SESSION_LOST w ()
   \<and> oxr_xrWaitFrame wait_op w session frameWaitInfo frameState =
       Returns XR_ERROR_SESSION_LOST w frameState
   \<and> oxr_xrBeginFrame frame_begin_op w session frameBeginInfo =
       Returns XR_ERROR_SESSION_LOST w ()
   \<and> oxr_xrEndFrame frame_end_op w session frameEndInfo = Returns XR_ERROR_SESSION_LOST w ()
   \<and> oxr_xrRequestExitSession exit_op w session = Returns XR_ERROR_SESSION_LOST w ()
   \<and> oxr_xrLocateViews vct views_op w session viewLocateInfo cap views_out =
       Returns XR_ERROR_SESSION_LOST w views_out
   \<and> oxr_xrPerfSettingsSetPerformanceLevelEXT perf_op w session domain level =
       Returns XR_ERROR_SESSION_LOST w ()
   \<and> oxr_xrThermalGetTemperatureTrendEXT w session = Returns XR_ERROR_SESSION_LOST w ()
   \<and> oxr_xrSetAndroidApplicationThreadKHR thread_op w session threadType threadId =
       Returns XR_ERROR_SESSION_LOST w ()
   \<and> oxr_xrCreateHandTrackerEXT hand_support w session hand_ci hand_out =
       Returns XR_ERROR_SESSION_LOST w hand_out
   \<and> oxr_xrCreateFacialTrackerHTC face_support w session face_ci face_out =
       Returns XR_ERROR_SESSION_LOST w face_out
   \<and> oxr_xrCreateBodyTrackerFB body_support full_body_support w session body_ci body_out =
       Returns XR_ERROR_SESSION_LOST w body_out
   \<and> oxr_xrEnumerateDisplayRefreshRatesFB two_call w session rate_cap rate_count rates =
       Returns XR_ERROR_SESSION_LOST w (rate_count, rates)
   \<and> oxr_xrGetDisplayRefreshRateFB get_rate_op w session rate_out =
       Returns XR_ERROR_SESSION_LOST w rate_out
   \<and> oxr_xrRequestDisplayRefreshRateFB request_rate_op w session rate =
       Returns XR_ERROR_SESSION_LOST w ()
   \<and> oxr_xrGetVisibilityMaskKHR vct view_index_in_range mask_op w session maskViewType viewIndex maskType vmask =
       Returns XR_ERROR_SESSION_LOST w vmask
   \<and> (OXR_VERIFY_HAND_TRACKER w handTracker = Inr htr \<and> ht_sess htr = session
      \<longrightarrow> oxr_xrLocateHandJointsEXT hand_joints_op w handTracker hand_li hand_loc =
          Returns XR_ERROR_SESSION_LOST w hand_loc)
   \<and> (OXR_VERIFY_BODY_TRACKER_FB w bodyTracker = Inr btr \<and> bt_sess btr = session
      \<longrightarrow> oxr_xrGetBodySkeletonFB skeleton_query w bodyTracker skeleton =
          Returns XR_ERROR_SESSION_LOST w skeleton)
   \<and> (OXR_VERIFY_BODY_TRACKER_FB w bodyTracker = Inr btr \<and> bt_sess btr = session
      \<longrightarrow> oxr_xrRequestBodyTrackingFidelityMETA fidelity_op w bodyTracker fidelity_level =
          Returns XR_ERROR_SESSION_LOST w ())
   \<and> (session \<in> set (sessions (inst w)) \<and>
      destroy_op (w\<lparr>inst := (inst w)\<lparr>sessions := remove1 session (sessions (inst w))\<rparr>\<rparr>) session =
          Returns XR_SUCCESS w1 ()
      \<longrightarrow> oxr_xrDestroySession destroy_op w session = Returns XR_SUCCESS w1 ())
   \<and> (OXR_VERIFY_HAND_TRACKER w handTracker = Inr htr \<and> ht_sess htr = session \<and>
      destroy_op w handTracker = Returns XR_SUCCESS w2 ()
      \<longrightarrow> oxr_xrDestroyHandTrackerEXT destroy_op w handTracker =
          Returns XR_SUCCESS w2 ())
   \<and> (OXR_VERIFY_FACE_TRACKER_HTC w facialTracker = Inr ftr \<and> ft_sess ftr = session \<and>
      destroy_op w facialTracker = Returns XR_SUCCESS w3 ()
      \<longrightarrow> oxr_xrDestroyFacialTrackerHTC destroy_op w facialTracker =
          Returns XR_SUCCESS w3 ())
   \<and> (OXR_VERIFY_BODY_TRACKER_FB w bodyTracker = Inr btr \<and> bt_sess btr = session \<and>
      destroy_op w bodyTracker = Returns XR_SUCCESS w4 ()
      \<longrightarrow> oxr_xrDestroyBodyTrackerFB destroy_op w bodyTracker =
          Returns XR_SUCCESS w4 ())"
  by (intro conjI)
    (rule lost_begin_session [OF assms],
     rule lost_end_session [OF assms],
     rule lost_wait_frame [OF assms],
     rule lost_begin_frame [OF assms],
     rule lost_end_frame [OF assms],
     rule lost_request_exit [OF assms],
     rule lost_locate_views [OF assms],
     rule lost_perf_level [OF assms],
     rule lost_thermal [OF assms],
     rule lost_android_thread [OF assms],
     rule lost_create_hand_tracker [OF assms],
     rule lost_create_facial_tracker [OF assms],
     rule lost_create_body_tracker [OF assms],
     rule lost_enumerate_rates [OF assms],
     rule lost_get_rate [OF assms],
     rule lost_request_rate [OF assms],
     rule lost_visibility_mask [OF assms],
     rule lost_locate_hand_joints [OF assms],
     rule lost_get_body_skeleton [OF assms],
     rule lost_request_fidelity [OF assms],
     rule lost_destroy_session [OF assms(1)],
     rule lost_destroy_hand_tracker,
     rule lost_destroy_facial_tracker,
     rule lost_destroy_body_tracker)

text \<open>
  On the lost session at address 2, with its hand tracker at address 5: an end-session
  call and a hand-joint query with \<^verbatim>\<open>NULL\<close> arguments return \<^verbatim>\<open>XR_ERROR_SESSION_LOST\<close>;
  destroying the session and destroying the tracker succeed, with
  \<^verbatim>\<open>oxr_handle_destroy\<close> as the specification describes it.
\<close>

theorem lost_session_calls_witness:
  "oxr_xrEndSession ex_handle_op (ex_world (ex_system None) ex_objs) 2 =
     Returns XR_ERROR_SESSION_LOST (ex_world (ex_system None) ex_objs) ()
   \<and> oxr_xrLocateHandJointsEXT ex_hand_joints_op (ex_world (ex_system None) ex_objs) 5 None
       None =
     Returns XR_ERROR_SESSION_LOST (ex_world (ex_system None) ex_objs) None
   \<and> returns_success
       (oxr_xrDestroySession oxr_handle_destroy (ex_world (ex_system None) ex_objs) 2)
   \<and> returns_success
       (oxr_xrDestroyHandTrackerEXT oxr_handle_destroy (ex_world (ex_system None) ex_objs) 5)"
proof -
  let ?w = "ex_world (ex_system None) ex_objs"
  have lost: "has_lost (ex_session False True)"
    by (simp add: ex_session_def)
  obtain w1 where w1: "oxr_handle_destroy
      (?w\<lparr>inst := (inst ?w)\<lparr>sessions := remove1 2 (sessions (inst
          ?w))\<rparr>\<rparr>) 2 =
      Returns XR_SUCCESS w1 ()"
    by (simp add: oxr_handle_destroy_def)
  obtain w2 where w2: "oxr_handle_destroy ?w 5 = Returns XR_SUCCESS w2 ()"
    by (simp add: oxr_handle_destroy_def)
  note l = lost_session_calls [OF ex_verify_session_2 [of "ex_system None"] lost,
      where end_op = ex_handle_op and hand_joints_op = ex_hand_joints_op and handTracker = 5
        and htr = "ex_hand_tracker 2" and hand_li = None and hand_loc = None
        and destroy_op = oxr_handle_destroy and ?w1.0 = w1 and ?w2.0 = w2]
  have a: "oxr_xrEndSession ex_handle_op ?w 2 = Returns XR_ERROR_SESSION_LOST ?w ()"
    by (rule l [THEN conjunct2, THEN conjunct1])
  have b: "oxr_xrLocateHandJointsEXT ex_hand_joints_op ?w 5 None None =
             Returns XR_ERROR_SESSION_LOST ?w None"
    using l [THEN conjunct2, THEN conjunct2, THEN conjunct2, THEN conjunct2, THEN conjunct2, THEN conjunct2, THEN conjunct2, THEN conjunct2, THEN conjunct2, THEN conjunct2, THEN conjunct2, THEN conjunct2, THEN conjunct2, THEN conjunct2, THEN conjunct2, THEN conjunct2, THEN conjunct2, THEN conjunct1]
    by (simp add: ex_verify_trackers ex_hand_tracker_def)
  have "oxr_xrDestroySession oxr_handle_destroy ?w 2 = Returns XR_SUCCESS w1 ()"
    using l [THEN conjunct2, THEN conjunct2, THEN conjunct2, THEN conjunct2, THEN conjunct2, THEN conjunct2, THEN conjunct2, THEN conjunct2, THEN conjunct2, THEN conjunct2, THEN conjunct2, THEN conjunct2, THEN conjunct2, THEN conjunct2, THEN conjunct2, THEN conjunct2, THEN conjunct2, THEN conjunct2, THEN conjunct2, THEN conjunct2, THEN conjunct1] w1
    by (simp add: ex_world_def)
  then have c: "returns_success (oxr_xrDestroySession oxr_handle_destroy ?w 2)"
    by (auto simp: returns_success_def)
  have "oxr_xrDestroyHandTrackerEXT oxr_handle_destroy ?w 5 = Returns XR_SUCCESS w2 ()"
    using l [THEN conjunct2, THEN conjunct2, THEN conjunct2, THEN conjunct2, THEN conjunct2, THEN conjunct2, THEN conjunct2, THEN conjunct2, THEN conjunct2, THEN conjunct2, THEN conjunct2, THEN conjunct2, THEN conjunct2, THEN conjunct2, THEN conjunct2, THEN conjunct2, THEN conjunct2, THEN conjunct2, THEN conjunct2, THEN conjunct2, THEN conjunct2, THEN conjunct1] w2
    by (simp add: ex_verify_trackers ex_hand_tracker_def)
  then have d: "returns_success (oxr_xrDestroyHandTrackerEXT oxr_handle_destroy ?w 5)"
    by (auto simp: returns_success_def)
  from a b c d show ?thesis by blast
qed

text \<open>
  The claim fails for the destroy call of a tracker: the hand tracker at address 5 is
  live and belongs to the session at address 2, which is lost; the call to destroy it
  does not return \<^verbatim>\<open>XR_ERROR_SESSION_LOST\<close> but succeeds and leaves the tracker destroyed.
\<close>

theorem lost_session_counterexample:
  "OXR_VERIFY_HAND_TRACKER (ex_world (ex_system None) ex_objs) 5 = Inr (ex_hand_tracker 2)
   \<and> deref_session (ex_world (ex_system None) ex_objs) (ht_sess (ex_hand_tracker 2)) =
       Some (ex_session False True)
   \<and> has_lost (ex_session False True)
   \<and> oxr_xrDestroyHandTrackerEXT oxr_handle_destroy (ex_world (ex_system None) ex_objs) 5 =
       Returns XR_SUCCESS
         (ex_world (ex_system None)
            (ex_objs(5 \<mapsto> HandTracker
               ((ex_hand_tracker 2)\<lparr>ht_handle_state := OXR_HANDLE_STATE_DESTROYED\<rparr>))))
         ()"
proof -
  let ?w = "ex_world (ex_system None) ex_objs"
  have objs: "(\<lambda>a. case ex_objs a of
                      None \<Rightarrow> None
                    | Some ob \<Rightarrow>
                        if a = 5 \<or> parent_of ob = Some 5 then Some (mark_destroyed ob)
                        else Some ob) =
              ex_objs(5 \<mapsto> HandTracker
                ((ex_hand_tracker 2)\<lparr>ht_handle_state := OXR_HANDLE_STATE_DESTROYED\<rparr>))"
    by (rule ext)
       (simp add: ex_objs_def parent_of_def mark_destroyed_def ex_hand_tracker_def
          ex_face_tracker_def ex_body_tracker_def)
  have "oxr_xrDestroyHandTrackerEXT oxr_handle_destroy ?w 5 =
          Returns XR_SUCCESS
            (ex_world (ex_system None)
               (ex_objs(5 \<mapsto> HandTracker
                  ((ex_hand_tracker 2)\<lparr>ht_handle_state :=
                      OXR_HANDLE_STATE_DESTROYED\<rparr>))))
            ()"
  proof -
    have "oxr_xrDestroyHandTrackerEXT oxr_handle_destroy ?w 5 = oxr_handle_destroy ?w 5"
      by (simp add: oxr_xrDestroyHandTrackerEXT_def ex_verify_trackers)
    also have "\<dots> = Returns XR_SUCCESS
            (ex_world (ex_system None)
               (ex_objs(5 \<mapsto> HandTracker
                  ((ex_hand_tracker 2)\<lparr>ht_handle_state :=
                      OXR_HANDLE_STATE_DESTROYED\<rparr>))))
            ()"
      by (simp add: oxr_handle_destroy_def ex_world_def objs)
    finally show ?thesis .
  qed
  then show ?thesis
    by (simp add: ex_verify_trackers ex_deref_session ex_hand_tracker_def ex_session_def)
qed

text \<open>
  The three tracker calls that the statement on a lost session leaves out. A
  body-joint query makes its two argument checks before the check for loss; the
  force-feedback call makes no check for loss; the facial-expression query makes its
  handle check on \<^verbatim>\<open>facialExpressions\<close>. On the trackers at addresses 8 and 5 of the lost
  session at address 2, and with the eye tracker at address 6 handed over as
  \<^verbatim>\<open>facialTracker\<close>:
\<close>

lemma lost_session_tracker_calls_left_out:
  "oxr_xrLocateBodyJointsFB (ex_body_env XR_SUCCESS) (ex_world (ex_system None) ex_objs) 8
     None (Some (ex_body_locations 70)) =
     Returns XR_ERROR_VALIDATION_FAILURE (ex_world (ex_system None) ex_objs)
       (Some (ex_body_locations 70))
   \<and> oxr_xrApplyForceFeedbackCurlMNDX ex_feedback_op (ex_world (ex_system None) ex_objs) 5
       (Some \<lparr>ty = XR_TYPE_FORCE_FEEDBACK_CURL_APPLY_LOCATIONS_MNDX, rest = 0\<rparr>) =
     ex_feedback_op (ex_world (ex_system None) ex_objs) 5
       (Some \<lparr>ty = XR_TYPE_FORCE_FEEDBACK_CURL_APPLY_LOCATIONS_MNDX, rest = 0\<rparr>)
   \<and> oxr_xrGetFacialExpressionsHTC ex_inactive_face (\<lambda>t. t) ex_layout
       (ex_world (ex_system None) ex_objs) 6 20 =
     Returns XR_ERROR_HANDLE_INVALID (ex_world (ex_system None) ex_objs) ()"
  by (simp add: oxr_xrLocateBodyJointsFB_def oxr_xrApplyForceFeedbackCurlMNDX_def
      oxr_xrGetFacialExpressionsHTC_def ex_verify_trackers
      OXR_VERIFY_ARG_TYPE_AND_NOT_NULL_def)





end
